theory Spec2Isabelle
  imports Main
begin

section \<open>Session lifecycle tracking: the model\<close>

text \<open>
  The repository tracks learning sessions on two back ends that do not share data:
  \<^item> a hosted Postgres store (tables \<open>profiles\<close> and \<open>sessions\<close> of the SQL migration),
    written by the browser code of \<open>AuthContext.tsx\<close> and by the \<open>close-session\<close>
    edge function that receives the unload beacon;
  \<^item> a MongoDB store (collections of \<open>User\<close> and \<open>Session\<close> documents), written by
    \<open>login\<close> and \<open>logout\<close> of \<open>authController.js\<close>.

  Instants are the integers returned by \<open>Date.getTime()\<close>: milliseconds since the epoch.
  Identifiers (UUIDs, ObjectIds) are strings. Every \<open>new Date()\<close> of the source is a
  parameter of the model, and so is every identifier a store generates. A Postgres
  call succeeds when the row it addresses is there, the access policy admits it and the
  values it writes fit the \<open>INTEGER\<close> columns; a MongoDB lookup by id throws when the
  id cannot be cast to an ObjectId. The clock readings are taken to be instants the
  timestamp columns hold; a date that arrives in a request need not be one. Transient
  faults of the persistence layer are not modelled.
\<close>

subsection \<open>Durations\<close>

text \<open>
  \<open>Math.round(ms / (1000 * 60))\<close>: \<open>Math.round\<close> rounds to the nearest integer and a
  half towards plus infinity, which is \<open>floor (x + 1/2)\<close>. On integers that is
  \<open>(ms + 30000) div 60000\<close>, \<open>div\<close> rounding down; the numbers of the source are taken
  in the range where their arithmetic is exact.
\<close>

definition round_minutes :: "int \<Rightarrow> int" where
  "round_minutes ms = (ms + 30000) div 60000"

text \<open>\<open>Math.max(0, Math.round(ms / (1000 * 60)))\<close>, as the two server paths compute it.\<close>

definition floored_minutes :: "int \<Rightarrow> int" where
  "floored_minutes ms = max 0 (round_minutes ms)"

text \<open>
  JavaScript truthiness of a value that is a string, \<open>null\<close> or \<open>undefined\<close>: only a
  non-empty string passes \<open>if (v)\<close>.
\<close>

definition truthy :: "string option \<Rightarrow> bool" where
  "truthy v = (case v of None \<Rightarrow> False | Some s \<Rightarrow> s \<noteq> [])"

subsection \<open>The Postgres store\<close>

text \<open>
  A row of \<open>public.profiles\<close> (the \<open>Profile\<close> interface of \<open>AuthContext.tsx\<close>); the
  primary key \<open>id\<close> is the key of the table's map. \<open>total_active_minutes\<close> is
  \<open>INTEGER NOT NULL DEFAULT 0\<close>. The bookkeeping columns \<open>created_at\<close> and
  \<open>updated_at\<close> are left out.
\<close>

record profile =
  p_name :: string
  p_email :: string
  p_role :: string
  last_login_at :: "int option"
  last_logout_at :: "int option"
  total_active_minutes :: int

text \<open>A row of \<open>public.sessions\<close>, keyed by its \<open>id\<close>.\<close>

record session_row =
  user_id :: string
  login_at :: int
  logout_at :: "int option"
  duration_minutes :: "int option"

record pg_db =
  profiles :: "string \<rightharpoonup> profile"
  sessions :: "string \<rightharpoonup> session_row"

text \<open>
  Who a store client acts as. The browser client carries the signed-in user's token (or
  none), and the row level security policies of the migration apply to it; the edge
  function creates its client with the service role key, which bypasses them.
\<close>

datatype pg_role = ServiceRole | Authenticated string | Anon

text \<open>
  The policies on \<open>sessions\<close> (select, insert, update): \<open>auth.uid() = user_id\<close>; on
  \<open>profiles\<close>: \<open>auth.uid() = id\<close>.
\<close>

definition session_policy :: "pg_role \<Rightarrow> session_row \<Rightarrow> bool" where
  "session_policy r s =
     (case r of ServiceRole \<Rightarrow> True | Authenticated u \<Rightarrow> u = user_id s | Anon \<Rightarrow> False)"

definition profile_policy :: "pg_role \<Rightarrow> string \<Rightarrow> bool" where
  "profile_policy r k =
     (case r of ServiceRole \<Rightarrow> True | Authenticated u \<Rightarrow> u = k | Anon \<Rightarrow> False)"

text \<open>\<open>from('sessions').select(...).eq('id', sid).single()\<close>: the row, or no data.\<close>

definition select_session :: "pg_role \<Rightarrow> pg_db \<Rightarrow> string \<Rightarrow> session_row option" where
  "select_session r db sid =
     (case sessions db sid of
        None \<Rightarrow> None
      | Some s \<Rightarrow> if session_policy r s then Some s else None)"

text \<open>\<open>from('profiles').select(...).eq('id', k).single()\<close> (or \<open>maybeSingle()\<close>).\<close>

definition select_profile :: "pg_role \<Rightarrow> pg_db \<Rightarrow> string \<Rightarrow> profile option" where
  "select_profile r db k =
     (case profiles db k of
        None \<Rightarrow> None
      | Some p \<Rightarrow> if profile_policy r k then Some p else None)"

text \<open>
  The values an \<open>INTEGER\<close> column holds: 32 bits, signed. Postgres refuses a statement
  that carries any other number for such a column (\<open>integer out of range\<close>), and the
  statement writes nothing.
\<close>

definition int4 :: "int \<Rightarrow> bool" where
  "int4 v = (- 2147483648 \<le> v \<and> v \<le> 2147483647)"

text \<open>
  \<open>from('sessions').update({logout_at, duration_minutes}).eq('id', sid)\<close>, the one
  update of \<open>sessions\<close> in the source: both columns are written in one statement, when
  the row is there and visible and \<open>duration_minutes\<close> fits its column; otherwise
  nothing changes. The callers only log an error of the update, or ignore it.
\<close>

definition update_session :: "pg_role \<Rightarrow> pg_db \<Rightarrow> string \<Rightarrow> int \<Rightarrow> int \<Rightarrow> pg_db" where
  "update_session r db sid new_logout_at new_duration_minutes =
     (case select_session r db sid of
        None \<Rightarrow> db
      | Some s \<Rightarrow>
          if int4 new_duration_minutes
          then db\<lparr>sessions := (sessions db)(sid \<mapsto>
                      s\<lparr>logout_at := Some new_logout_at,
                        duration_minutes := Some new_duration_minutes\<rparr>)\<rparr>
          else db)"

text \<open>
  The two column sets the source writes to \<open>profiles\<close>: \<open>{last_login_at}\<close> at an open, and
  \<open>{last_logout_at, total_active_minutes}\<close> at a close.
\<close>

datatype profile_columns = SetLogin int | SetLogout int int

text \<open>
  \<open>from('profiles').update({...}).eq('id', k)\<close>: writes the columns when the row is there
  and visible and the new \<open>total_active_minutes\<close>, if one is given, fits its column;
  otherwise nothing changes.
\<close>

definition update_profile :: "pg_role \<Rightarrow> pg_db \<Rightarrow> string \<Rightarrow> profile_columns \<Rightarrow> pg_db" where
  "update_profile r db k cols =
     (case select_profile r db k of
        None \<Rightarrow> db
      | Some p \<Rightarrow>
          (case cols of
             SetLogin t \<Rightarrow> db\<lparr>profiles := (profiles db)(k \<mapsto> p\<lparr>last_login_at := Some t\<rparr>)\<rparr>
           | SetLogout t new_total \<Rightarrow>
               if int4 new_total
               then db\<lparr>profiles := (profiles db)(k \<mapsto>
                           p\<lparr>last_logout_at := Some t, total_active_minutes := new_total\<rparr>)\<rparr>
               else db))"

text \<open>
  \<open>from('sessions').insert({user_id, login_at}).select('id').single()\<close>. \<open>new_id\<close> is the
  value \<open>gen_random_uuid()\<close> produces. The insert is refused by the insert policy, by the
  foreign key on \<open>user_id\<close> when there is no such profile, and by the primary key when
  the identifier is taken. \<open>logout_at\<close> and \<open>duration_minutes\<close> have no default: they
  start as \<open>NULL\<close>.
\<close>

definition insert_session ::
  "pg_role \<Rightarrow> pg_db \<Rightarrow> string \<Rightarrow> string \<Rightarrow> int \<Rightarrow> string option \<times> pg_db" where
  "insert_session r db new_id uid t =
     (let row = \<lparr>user_id = uid, login_at = t, logout_at = None, duration_minutes = None\<rparr>
      in if session_policy r row \<and> profiles db uid \<noteq> None \<and> sessions db new_id = None
         then (Some new_id, db\<lparr>sessions := (sessions db)(new_id \<mapsto> row)\<rparr>)
         else (None, db))"

subsection \<open>The browser client: \<open>AuthContext.tsx\<close>\<close>

text \<open>\<open>fetchProfile\<close>: reads the profile, \<open>null\<close> when there is none.\<close>

definition fetchProfile :: "pg_role \<Rightarrow> pg_db \<Rightarrow> string \<Rightarrow> profile option" where
  "fetchProfile r db userId = select_profile r db userId"

text \<open>
  \<open>createSession\<close>: inserts the session row with \<open>login_at = t_insert\<close>; on an insert
  error returns \<open>null\<close> and stops; otherwise sets the profile's \<open>last_login_at\<close> to
  \<open>t_update\<close> (a second \<open>new Date()\<close>) and returns \<open>data?.id || null\<close>.
\<close>

definition createSession ::
  "pg_role \<Rightarrow> string \<Rightarrow> string \<Rightarrow> int \<Rightarrow> int \<Rightarrow> pg_db \<Rightarrow> string option \<times> pg_db" where
  "createSession r userId new_id t_insert t_update db =
     (case insert_session r db new_id userId t_insert of
        (None, db1) \<Rightarrow> (None, db1)
      | (Some i, db1) \<Rightarrow>
          (if i = [] then None else Some i,
           update_profile r db1 userId (SetLogin t_update)))"

text \<open>
  \<open>closeSession\<close> of the client: reads \<open>login_at\<close>; returns when there is no row;
  computes \<open>Math.round\<close> of the minutes (no \<open>Math.max\<close> here); writes \<open>logout_at\<close> and
  \<open>duration_minutes\<close> in one update; reads the profile of \<open>userId\<close> and, when it is
  there, writes \<open>last_logout_at\<close> and the total plus the duration. The results of the
  two updates are not looked at: a refused update does not stop what follows.
\<close>

definition closeSession :: "pg_role \<Rightarrow> string \<Rightarrow> string \<Rightarrow> int \<Rightarrow> pg_db \<Rightarrow> pg_db" where
  "closeSession r sessionId userId now db =
     (case select_session r db sessionId of
        None \<Rightarrow> db
      | Some sessionData \<Rightarrow>
          (let durationMinutes = round_minutes (now - login_at sessionData);
               db1 = update_session r db sessionId now durationMinutes
           in case select_profile r db1 userId of
                None \<Rightarrow> db1
              | Some profileData \<Rightarrow>
                  update_profile r db1 userId
                    (SetLogout now (total_active_minutes profileData + durationMinutes))))"

text \<open>
  The provider's state: the React state \<open>user\<close>, \<open>profile\<close> and \<open>currentSessionId\<close>, and
  the two \<open>sessionStorage\<close> entries \<open>learning_session_id\<close> and \<open>user_id\<close> (the client
  session cache, which lives as long as the tab). The auth session object and the
  \<open>isLoading\<close> flag, which no session operation reads, are left out.
\<close>

record client =
  user :: "string option"
  profile_state :: "profile option"
  currentSessionId :: "string option"
  learning_session_id :: "string option"
  stored_user_id :: "string option"

text \<open>
  The events \<open>onAuthStateChange\<close> delivers; the handler tells \<open>SIGNED_IN\<close> and
  \<open>SIGNED_OUT\<close> from every other event.
\<close>

datatype auth_event = SIGNED_IN | SIGNED_OUT | OTHER_EVENT

text \<open>
  The listener passed to \<open>onAuthStateChange\<close>, with its deferred body run to the end.
  \<open>currentUser\<close> is \<open>currentSession?.user\<close>, and the store client acts as that user.
  On \<open>SIGNED_IN\<close> with a user it fetches the profile, calls \<open>createSession\<close> and, when
  that returned an id, stores the id and the user in \<open>sessionStorage\<close>; it does not
  read \<open>sessionStorage\<close>. On \<open>SIGNED_OUT\<close> it clears the state and both entries.
\<close>

definition onAuthStateChange ::
  "auth_event \<Rightarrow> string option \<Rightarrow> string \<Rightarrow> int \<Rightarrow> int \<Rightarrow> client \<times> pg_db \<Rightarrow> client \<times> pg_db" where
  "onAuthStateChange event currentUser new_id t_insert t_update w =
     (case w of (c, db) \<Rightarrow>
        (let c1 = c\<lparr>user := currentUser\<rparr> in
         case (event, currentUser) of
           (SIGNED_IN, Some uid) \<Rightarrow>
             (let c2 = c1\<lparr>profile_state := fetchProfile (Authenticated uid) db uid\<rparr>
              in case createSession (Authenticated uid) uid new_id t_insert t_update db of
                   (sessionId, db1) \<Rightarrow>
                     (let c3 = c2\<lparr>currentSessionId := sessionId\<rparr>
                      in if truthy sessionId
                         then (c3\<lparr>learning_session_id := sessionId,
                                   stored_user_id := Some uid\<rparr>, db1)
                         else (c3, db1)))
         | (SIGNED_OUT, _) \<Rightarrow>
             (c1\<lparr>profile_state := None, currentSessionId := None,
                  learning_session_id := None, stored_user_id := None\<rparr>, db)
         | _ \<Rightarrow> (c1, db)))"

text \<open>
  The continuation of \<open>supabase.auth.getSession()\<close> at application start.
  \<open>existingUser\<close> is \<open>existingSession?.user\<close>. With a user it fetches the profile, then
  reuses the stored session id when there is one and creates a session otherwise.
\<close>

definition getSession_init ::
  "string option \<Rightarrow> string \<Rightarrow> int \<Rightarrow> int \<Rightarrow> client \<times> pg_db \<Rightarrow> client \<times> pg_db" where
  "getSession_init existingUser new_id t_insert t_update w =
     (case w of (c, db) \<Rightarrow>
        (let c1 = c\<lparr>user := existingUser\<rparr> in
         case existingUser of
           None \<Rightarrow> (c1, db)
         | Some uid \<Rightarrow>
             (let c2 = c1\<lparr>profile_state := fetchProfile (Authenticated uid) db uid\<rparr>;
                  storedSessionId = learning_session_id c2
              in if truthy storedSessionId
                 then (c2\<lparr>currentSessionId := storedSessionId\<rparr>, db)
                 else
                   (case createSession (Authenticated uid) uid new_id t_insert t_update db of
                      (newSessionId, db1) \<Rightarrow>
                        (let c3 = c2\<lparr>currentSessionId := newSessionId\<rparr>
                         in if truthy newSessionId
                            then (c3\<lparr>learning_session_id := newSessionId,
                                      stored_user_id := Some uid\<rparr>, db1)
                            else (c3, db1))))))"

text \<open>
  \<open>logout\<close> of the provider: closes the current session when there is a current session
  id and a user, then signs out (\<open>supabase.auth.signOut()\<close>, which the listener sees as
  \<open>SIGNED_OUT\<close> without a session).
\<close>

definition client_logout :: "int \<Rightarrow> client \<times> pg_db \<Rightarrow> client \<times> pg_db" where
  "client_logout now w =
     (case w of (c, db) \<Rightarrow>
        (let db1 = (case (currentSessionId c, user c) of
                      (Some sid, Some uid) \<Rightarrow>
                        if sid \<noteq> [] then closeSession (Authenticated uid) sid uid now db else db
                    | _ \<Rightarrow> db)
         in onAuthStateChange SIGNED_OUT None [] 0 0 (c, db1)))"

subsection \<open>The unload beacon and the \<open>close-session\<close> edge function\<close>

text \<open>
  The \<open>logout_at\<close> of a beacon payload, which is whatever the sender wrote, as
  \<open>new Date(logout_at)\<close> and the store see it: absent (or falsy); a date, with its
  instant, that the timestamp columns take; a date, with its instant, whose text
  \<open>toISOString()\<close> the timestamp columns refuse (JavaScript has dates before 4713 BC,
  where PostgreSQL's timestamps begin); or a value that gives an invalid date. The clock
  readings \<open>new Date()\<close> are taken to be instants the columns take.
\<close>

datatype date_field = NoDate | ValidDate int | UnstorableDate int | InvalidDate

record beacon_payload =
  req_session_id :: "string option"
  req_user_id :: "string option"
  req_logout_at :: date_field

text \<open>
  \<open>handleBeforeUnload\<close>: with both entries in \<open>sessionStorage\<close> it sends one beacon
  carrying them and the current instant; \<open>None\<close> when nothing is sent.
\<close>

definition handleBeforeUnload :: "int \<Rightarrow> client \<Rightarrow> beacon_payload option" where
  "handleBeforeUnload now c =
     (if truthy (learning_session_id c) \<and> truthy (stored_user_id c)
      then Some \<lparr>req_session_id = learning_session_id c,
                 req_user_id = stored_user_id c,
                 req_logout_at = ValidDate now\<rparr>
      else None)"

text \<open>
  A request to the edge function: its method and its body as \<open>req.json()\<close> and the
  destructuring give it (\<open>None\<close> when either throws).
\<close>

record beacon_request =
  req_method :: string
  req_body :: "beacon_payload option"

text \<open>
  \<open>navigator.sendBeacon(url, payload)\<close>: the browser posts the payload.
\<close>

definition sendBeacon :: "beacon_payload \<Rightarrow> beacon_request" where
  "sendBeacon payload = \<lparr>req_method = ''POST'', req_body = Some payload\<rparr>"

datatype response_body = NoBody | ErrorBody string | ClosedBody int

datatype response = Response nat response_body

text \<open>
  The handler passed to \<open>serve\<close>. An exception anywhere in the \<open>try\<close> block gives the
  500 response; \<open>logoutTime.toISOString()\<close> throws on an invalid date, while the
  arguments of the session update are built, before the update is sent. The session is
  read and both tables are written with the service role. The profile written is the one
  whose id is the payload's \<open>user_id\<close>. An error of either update is logged and the
  handler goes on: the answer is 200 with the computed duration all the same. Both
  updates carry the logout time as text, so the store refuses both when it does not take
  that text (\<open>storable\<close> is false).
\<close>

definition close_session :: "beacon_request \<Rightarrow> int \<Rightarrow> pg_db \<Rightarrow> response \<times> pg_db" where
  "close_session req now db =
     (if req_method req = ''OPTIONS'' then (Response 200 NoBody, db)
      else case req_body req of
        None \<Rightarrow> (Response 500 (ErrorBody ''Internal server error''), db)
      | Some payload \<Rightarrow>
          (case (req_session_id payload, req_user_id payload) of
             (Some session_id, Some uid) \<Rightarrow>
               if session_id = [] \<or> uid = []
               then (Response 400 (ErrorBody ''Missing required fields''), db)
               else
                 (case select_session ServiceRole db session_id of
                    None \<Rightarrow> (Response 404 (ErrorBody ''Session not found''), db)
                  | Some sessionData \<Rightarrow>
                      (case (case req_logout_at payload of
                               NoDate \<Rightarrow> Some (now, True)
                             | ValidDate t \<Rightarrow> Some (t, True)
                             | UnstorableDate t \<Rightarrow> Some (t, False)
                             | InvalidDate \<Rightarrow> None) of
                         None \<Rightarrow> (Response 500 (ErrorBody ''Internal server error''), db)
                       | Some (logoutTime, storable) \<Rightarrow>
                           (let durationMinutes =
                                  floored_minutes (logoutTime - login_at sessionData);
                                db1 = (if storable
                                       then update_session ServiceRole db session_id
                                              logoutTime durationMinutes
                                       else db);
                                db2 = (case select_profile ServiceRole db1 uid of
                                         None \<Rightarrow> db1
                                       | Some profileData \<Rightarrow>
                                           if storable
                                           then update_profile ServiceRole db1 uid
                                                  (SetLogout logoutTime
                                                     (total_active_minutes profileData
                                                        + durationMinutes))
                                           else db1)
                            in (Response 200 (ClosedBody durationMinutes), db2))))
           | _ \<Rightarrow> (Response 400 (ErrorBody ''Missing required fields''), db)))"

subsection \<open>The MongoDB store and \<open>authController.js\<close>\<close>

text \<open>
  Modelled from the spec: the \<open>User\<close> schema, whose file is not among the sources. Its
  fields are those the README of the back end lists (\<open>name\<close>, \<open>email\<close>, \<open>password\<close>,
  \<open>role\<close>, \<open>lastLoginAt\<close>, \<open>lastLogoutAt\<close>, \<open>totalActiveMinutes\<close>) and the controller
  reads and writes; \<open>u_id\<close> is the document's \<open>_id\<close>. \<open>totalActiveMinutes\<close> may be
  absent, which is what \<open>user.totalActiveMinutes || 0\<close> provides for.
\<close>

record user_doc =
  u_id :: string
  u_name :: string
  u_email :: string
  u_password :: string
  u_role :: string
  lastLoginAt :: "int option"
  lastLogoutAt :: "int option"
  totalActiveMinutes :: "int option"

text \<open>
  A document of \<open>sessionSchema\<close>; \<open>s_id\<close> is its \<open>_id\<close>. \<open>userId\<close> and \<open>loginAt\<close> are
  required, \<open>logoutAt\<close> and \<open>durationMinutes\<close> are optional and have no default.
\<close>

record session_doc =
  s_id :: string
  userId :: string
  loginAt :: int
  logoutAt :: "int option"
  durationMinutes :: "int option"

record mongo_db =
  users :: "user_doc list"
  session_docs :: "session_doc list"

text \<open>
  \<open>User.findById(req.user._id)\<close> and \<open>User.findOne({ email })\<close>. The id given to
  \<open>User.findById\<close> is the \<open>_id\<close> of the document the \<open>auth\<close> middleware loaded, an
  ObjectId already: there is nothing to cast.
\<close>

definition User_findById :: "mongo_db \<Rightarrow> string \<Rightarrow> user_doc option" where
  "User_findById db i = find (\<lambda>u. u_id u = i) (users db)"

definition User_findOne_email :: "mongo_db \<Rightarrow> string \<Rightarrow> user_doc option" where
  "User_findOne_email db e = find (\<lambda>u. u_email u = e) (users db)"

text \<open>
  \<open>Session.findById(sessionId)\<close> with a string of the request body. The driver casts
  the string to an ObjectId first and throws \<open>CastError\<close> when it cannot (the error the
  subject and content controllers of the repository catch by that name). Which strings
  can be cast is the driver's matter: \<open>castable\<close> is a parameter.
\<close>

datatype mongoose_error = CastError

definition Session_findById ::
  "(string \<Rightarrow> bool) \<Rightarrow> mongo_db \<Rightarrow> string \<Rightarrow> mongoose_error + session_doc option" where
  "Session_findById castable db i =
     (if castable i then Inr (find (\<lambda>s. s_id s = i) (session_docs db)) else Inl CastError)"

text \<open>\<open>doc.save()\<close> of a document read from the store: replaces the stored document.\<close>

definition user_save :: "user_doc \<Rightarrow> mongo_db \<Rightarrow> mongo_db" where
  "user_save u db = db\<lparr>users := map (\<lambda>d. if u_id d = u_id u then u else d) (users db)\<rparr>"

definition session_save :: "session_doc \<Rightarrow> mongo_db \<Rightarrow> mongo_db" where
  "session_save s db =
     db\<lparr>session_docs := map (\<lambda>d. if s_id d = s_id s then s else d) (session_docs db)\<rparr>"

text \<open>
  \<open>Session.create({ userId, loginAt })\<close>, \<open>new_id\<close> being the \<open>_id\<close> the driver generates;
  \<open>None\<close> is the duplicate key error.
\<close>

definition Session_create :: "string \<Rightarrow> string \<Rightarrow> int \<Rightarrow> mongo_db \<Rightarrow> (session_doc \<times> mongo_db) option" where
  "Session_create new_id uid t db =
     (case find (\<lambda>s. s_id s = new_id) (session_docs db) of
        Some _ \<Rightarrow> None
      | None \<Rightarrow>
          (let s = \<lparr>s_id = new_id, userId = uid, loginAt = t,
                      logoutAt = None, durationMinutes = None\<rparr>
           in Some (s, db\<lparr>session_docs := session_docs db @ [s]\<rparr>)))"

datatype api_response =
  ApiError nat string
| LoginOk string string "string \<times> string \<times> string \<times> string"
| LogoutOk int

text \<open>
  \<open>login\<close>. \<open>comparePassword\<close> (a method of the \<open>User\<close> model) and \<open>generateToken\<close> (the
  JWT signature) are parameters. The user's \<open>lastLoginAt\<close> is saved first, with its own
  \<open>new Date()\<close>; then the session is created. An exception gives the 500 response and
  keeps what was saved before it.
\<close>

definition login ::
  "(user_doc \<Rightarrow> string \<Rightarrow> bool) \<Rightarrow> (string \<Rightarrow> string) \<Rightarrow> string option \<Rightarrow> string option \<Rightarrow>
   string \<Rightarrow> int \<Rightarrow> int \<Rightarrow> mongo_db \<Rightarrow> api_response \<times> mongo_db" where
  "login comparePassword generateToken email password new_id t_user t_session db =
     (case (email, password) of
        (Some e, Some pw) \<Rightarrow>
          if e = [] \<or> pw = []
          then (ApiError 400 ''Please provide email and password'', db)
          else
            (case User_findOne_email db e of
               None \<Rightarrow> (ApiError 401 ''Invalid credentials'', db)
             | Some u \<Rightarrow>
                 if comparePassword u pw
                 then
                   (let db1 = user_save (u\<lparr>lastLoginAt := Some t_user\<rparr>) db
                    in case Session_create new_id (u_id u) t_session db1 of
                         None \<Rightarrow> (ApiError 500 ''Server error during login'', db1)
                       | Some (session, db2) \<Rightarrow>
                           (LoginOk (generateToken (u_id u)) (s_id session)
                              (u_id u, u_name u, u_email u, u_role u), db2))
                 else (ApiError 401 ''Invalid credentials'', db))
      | _ \<Rightarrow> (ApiError 400 ''Please provide email and password'', db))"

text \<open>
  \<open>logout\<close>. \<open>sessionId\<close> is \<open>req.body.sessionId\<close> and \<open>req_user\<close> is \<open>req.user._id\<close>, the
  identity the \<open>auth\<close> middleware of the route attached to the request. The body is one
  \<open>try\<close> block whose \<open>catch\<close> answers 500 for every error, the \<open>CastError\<close> of the
  lookup included; nothing is written before the lookup.
\<close>

definition logout ::
  "(string \<Rightarrow> bool) \<Rightarrow> string option \<Rightarrow> string \<Rightarrow> int \<Rightarrow> mongo_db \<Rightarrow> api_response \<times> mongo_db" where
  "logout castable sessionId req_user now db =
     (case sessionId of
        None \<Rightarrow> (ApiError 400 ''Session ID is required'', db)
      | Some sid \<Rightarrow>
          if sid = [] then (ApiError 400 ''Session ID is required'', db)
          else
            (case Session_findById castable db sid of
               Inl _ \<Rightarrow> (ApiError 500 ''Server error during logout'', db)
             | Inr None \<Rightarrow> (ApiError 404 ''Session not found'', db)
             | Inr (Some session) \<Rightarrow>
                 if userId session = req_user
                 then
                   (let logoutTime = now;
                        d = floored_minutes (logoutTime - loginAt session);
                        db1 = session_save
                                (session\<lparr>logoutAt := Some logoutTime,
                                         durationMinutes := Some d\<rparr>) db;
                        db2 = (case User_findById db1 req_user of
                                 None \<Rightarrow> db1
                               | Some u \<Rightarrow>
                                   user_save
                                     (u\<lparr>lastLogoutAt := Some logoutTime,
                                        totalActiveMinutes :=
                                          Some ((case totalActiveMinutes u of
                                                   None \<Rightarrow> 0 | Some m \<Rightarrow> m) + d)\<rparr>) db1)
                    in (LogoutOk d, db2))
                 else (ApiError 403 ''Not authorized to access this session'', db)))"

subsection \<open>Lifecycle operations on both stores\<close>

text \<open>
  The operations that create or close sessions, each with its inputs: \<open>createSession\<close>
  and \<open>closeSession\<close> of the browser client, a request to the edge function, and the
  two controller endpoints.
\<close>

datatype lifecycle_op =
  ClientOpen pg_role string string int int
| ClientClose pg_role string string int
| BeaconClose beacon_request int
| ApiLogin "string option" "string option" string int int
| ApiLogout "string option" string int

record world =
  pg :: pg_db
  mongo :: mongo_db

fun step ::
  "(string \<Rightarrow> bool) \<Rightarrow> (user_doc \<Rightarrow> string \<Rightarrow> bool) \<Rightarrow> (string \<Rightarrow> string) \<Rightarrow>
   lifecycle_op \<Rightarrow> world \<Rightarrow> world" where
  "step co cp gt (ClientOpen r uid new_id t1 t2) w =
     w\<lparr>pg := snd (createSession r uid new_id t1 t2 (pg w))\<rparr>"
| "step co cp gt (ClientClose r sid uid now) w =
     w\<lparr>pg := closeSession r sid uid now (pg w)\<rparr>"
| "step co cp gt (BeaconClose req now) w =
     w\<lparr>pg := snd (close_session req now (pg w))\<rparr>"
| "step co cp gt (ApiLogin e pw new_id t1 t2) w =
     w\<lparr>mongo := snd (login cp gt e pw new_id t1 t2 (mongo w))\<rparr>"
| "step co cp gt (ApiLogout sid u now) w =
     w\<lparr>mongo := snd (logout co sid u now (mongo w))\<rparr>"

fun run ::
  "(string \<Rightarrow> bool) \<Rightarrow> (user_doc \<Rightarrow> string \<Rightarrow> bool) \<Rightarrow> (string \<Rightarrow> string) \<Rightarrow>
   lifecycle_op list \<Rightarrow> world \<Rightarrow> world" where
  "run co cp gt [] w = w"
| "run co cp gt (e # es) w = run co cp gt es (step co cp gt e w)"

text \<open>
  The pairing of the two close fields: \<open>logout_at\<close> is null exactly when
  \<open>duration_minutes\<close> is, for every session row and every session document.
\<close>

definition pg_paired :: "pg_db \<Rightarrow> bool" where
  "pg_paired db =
     (\<forall>sid s. sessions db sid = Some s \<longrightarrow> (logout_at s = None) = (duration_minutes s = None))"

definition mongo_paired :: "mongo_db \<Rightarrow> bool" where
  "mongo_paired db =
     list_all (\<lambda>s. (logoutAt s = None) = (durationMinutes s = None)) (session_docs db)"

definition sessions_paired :: "world \<Rightarrow> bool" where
  "sessions_paired w = (pg_paired (pg w) \<and> mongo_paired (mongo w))"

subsection \<open>Example data\<close>

text \<open>
  Two profiles and one open session of the first, opened at instant 0; and the same on
  the MongoDB side. The examples below run the operations on these stores.
\<close>

definition alice :: profile where
  "alice = \<lparr>p_name = ''Alice'', p_email = ''alice@example.org'', p_role = ''student'',
             last_login_at = Some 0, last_logout_at = None, total_active_minutes = 0\<rparr>"

definition bob :: profile where
  "bob = \<lparr>p_name = ''Bob'', p_email = ''bob@example.org'', p_role = ''student'',
           last_login_at = None, last_logout_at = None, total_active_minutes = 40\<rparr>"

definition session1 :: session_row where
  "session1 = \<lparr>user_id = ''u1'', login_at = 0, logout_at = None, duration_minutes = None\<rparr>"

definition pg_example :: pg_db where
  "pg_example = \<lparr>profiles = [''u1'' \<mapsto> alice, ''u2'' \<mapsto> bob],
                  sessions = [''s1'' \<mapsto> session1]\<rparr>"

definition carol :: user_doc where
  "carol = \<lparr>u_id = ''c00000000000000000000001'', u_name = ''Carol'', u_email = ''carol@example.org'',
             u_password = ''hash1'', u_role = ''student'',
             lastLoginAt = Some 0, lastLogoutAt = None, totalActiveMinutes = Some 0\<rparr>"

definition dave :: user_doc where
  "dave = \<lparr>u_id = ''d00000000000000000000002'', u_name = ''Dave'', u_email = ''dave@example.org'',
            u_password = ''hash2'', u_role = ''teacher'',
            lastLoginAt = None, lastLogoutAt = None, totalActiveMinutes = None\<rparr>"

definition session_doc1 :: session_doc where
  "session_doc1 = \<lparr>s_id = ''5e5510000000000000000001'', userId = ''c00000000000000000000001'', loginAt = 0,
                    logoutAt = None, durationMinutes = None\<rparr>"

definition mongo_example :: mongo_db where
  "mongo_example = \<lparr>users = [carol, dave], session_docs = [session_doc1]\<rparr>"

text \<open>
  For the examples, the ids that can be cast are the strings of 24 hexadecimal digits,
  the form in which an ObjectId is printed; and the password check compares with the
  stored password.
\<close>

definition hex24 :: "string \<Rightarrow> bool" where
  "hex24 s = (length s = 24 \<and> list_all (\<lambda>c. c \<in> set ''0123456789abcdefABCDEF'') s)"

definition plain_compare :: "user_doc \<Rightarrow> string \<Rightarrow> bool" where
  "plain_compare u pw = (u_password u = pw)"

text \<open>
  A tab in which Alice is signed in and her session \<open>s1\<close> is cached; and the store with
  a session of hers whose \<open>login_at\<close> (instant 600000) lies ahead of the clock readings
  used below.
\<close>

definition client_example :: client where
  "client_example = \<lparr>user = Some ''u1'', profile_state = Some alice,
                      currentSessionId = Some ''s1'',
                      learning_session_id = Some ''s1'', stored_user_id = Some ''u1''\<rparr>"

definition pg_late_login :: pg_db where
  "pg_late_login = \<lparr>profiles = [''u1'' \<mapsto> alice, ''u2'' \<mapsto> bob],
                     sessions = [''s1'' \<mapsto> session1\<lparr>login_at := 600000\<rparr>]\<rparr>"

text \<open>
  The same store with Alice's total seven minutes below the largest \<open>INTEGER\<close>, as a
  beacon with a far \<open>logout_at\<close> can leave it.
\<close>

definition pg_big_total :: pg_db where
  "pg_big_total = \<lparr>profiles = [''u1'' \<mapsto> alice\<lparr>total_active_minutes := 2147483640\<rparr>,
                                ''u2'' \<mapsto> bob],
                    sessions = [''s1'' \<mapsto> session1]\<rparr>"

text \<open>
  The end-to-end scenario of the specification, on stores that hold no session yet:
  Alice signs in at instant 0 (session \<open>s1\<close>); the tab is closed seven minutes later and
  the beacon closes \<open>s1\<close>; she signs in again (session \<open>s2\<close>) and logs out three minutes
  later. On the controller, Carol logs in and logs out seven minutes later.
\<close>

definition world_start :: world where
  "world_start = \<lparr>pg = \<lparr>profiles = [''u1'' \<mapsto> alice, ''u2'' \<mapsto> bob], sessions = Map.empty\<rparr>,
                   mongo = \<lparr>users = [carol, dave], session_docs = []\<rparr>\<rparr>"

definition scenario :: "lifecycle_op list" where
  "scenario =
     [ClientOpen (Authenticated ''u1'') ''u1'' ''s1'' 0 1,
      BeaconClose (sendBeacon \<lparr>req_session_id = Some ''s1'', req_user_id = Some ''u1'',
                                req_logout_at = ValidDate 420000\<rparr>) 420100,
      ClientOpen (Authenticated ''u1'') ''u1'' ''s2'' 1000000 1000001,
      ClientClose (Authenticated ''u1'') ''s2'' ''u1'' 1180000,
      ApiLogin (Some ''carol@example.org'') (Some ''hash1'') ''5e5510000000000000000001'' 0 1,
      ApiLogout (Some ''5e5510000000000000000001'') ''c00000000000000000000001'' 420000]"

section \<open>Properties of the session lifecycle\<close>

subsection \<open>Auxiliary facts about the stores\<close>

lemmas store_defs = select_session_def select_profile_def update_session_def
  update_profile_def session_policy_def profile_policy_def

lemmas example_defs = pg_example_def alice_def bob_def session1_def hex24_def
  mongo_example_def carol_def dave_def session_doc1_def sendBeacon_def
  client_example_def pg_late_login_def pg_big_total_def

lemma find_replaced:
  "find (\<lambda>d. f d = k) ds = Some y \<Longrightarrow> f x = k \<Longrightarrow>
   find (\<lambda>d. f d = k) (map (\<lambda>d. if f d = f x then x else d) ds) = Some x"
  by (induction ds) (auto split: if_splits)

lemma find_key: "find (\<lambda>d. f d = k) ds = Some y \<Longrightarrow> f y = k"
  by (induction ds) (auto split: if_splits)

subsection \<open>Rejected close requests\<close>

text \<open>
  Claim C8. On the beacon endpoint, a request whose payload lacks \<open>session_id\<close> or
  \<open>user_id\<close> (absent, null or empty) is answered with status 400, and the store is
  returned as it was: the answer is given before any call to the store. The request is
  one that carries a payload: it is not the CORS preflight, which is answered before
  the body is read, and its body parses.
\<close>

theorem beacon_missing_fields_rejected:
  assumes "req_method req \<noteq> ''OPTIONS''" and "req_body req = Some p"
    and "\<not> truthy (req_session_id p) \<or> \<not> truthy (req_user_id p)"
  shows "close_session req now db = (Response 400 (ErrorBody ''Missing required fields''), db)"
  using assms by (auto simp: close_session_def truthy_def split: option.splits)

text \<open>
  The beacon of session \<open>s1\<close> without a \<open>user_id\<close>, and one with an empty \<open>session_id\<close>:
  both are refused and the session stays open.
\<close>

theorem beacon_missing_fields_rejected_witness:
  "close_session
     (sendBeacon \<lparr>req_session_id = Some ''s1'', req_user_id = None, req_logout_at = NoDate\<rparr>)
     420000 pg_example
   = (Response 400 (ErrorBody ''Missing required fields''), pg_example) \<and>
   close_session
     (sendBeacon \<lparr>req_session_id = Some [], req_user_id = Some ''u1'',
                  req_logout_at = ValidDate 420000\<rparr>)
     420000 pg_example
   = (Response 400 (ErrorBody ''Missing required fields''), pg_example)"
  using
    beacon_missing_fields_rejected
      [of "sendBeacon \<lparr>req_session_id = Some ''s1'', req_user_id = None,
                        req_logout_at = NoDate\<rparr>"
          "\<lparr>req_session_id = Some ''s1'', req_user_id = None, req_logout_at = NoDate\<rparr>"
          420000 pg_example]
    beacon_missing_fields_rejected
      [of "sendBeacon \<lparr>req_session_id = Some [], req_user_id = Some ''u1'',
                        req_logout_at = ValidDate 420000\<rparr>"
          "\<lparr>req_session_id = Some [], req_user_id = Some ''u1'',
            req_logout_at = ValidDate 420000\<rparr>"
          420000 pg_example]
  by (simp add: sendBeacon_def truthy_def)

text \<open>
  Claim C4. On the explicit logout endpoint, when the session named by the request
  exists and its \<open>userId\<close> is not the authenticated caller's id, the answer is the 403
  permission error (not the 404 of a missing session), and the store is returned as it
  was: neither the session nor any user document is written.
\<close>

theorem logout_foreign_session_forbidden:
  assumes "sid \<noteq> []" and "Session_findById castable db sid = Inr (Some s)"
    and "userId s \<noteq> req_user"
  shows "logout castable (Some sid) req_user now db =
           (ApiError 403 ''Not authorized to access this session'', db)"
  using assms by (simp add: logout_def)

text \<open>Dave asks to close Carol's session.\<close>

theorem logout_foreign_session_forbidden_witness:
  "logout hex24 (Some ''5e5510000000000000000001'') ''d00000000000000000000002'' 420000
     mongo_example =
     (ApiError 403 ''Not authorized to access this session'', mongo_example)"
  using logout_foreign_session_forbidden
          [of "''5e5510000000000000000001''" hex24 mongo_example session_doc1
              "''d00000000000000000000002''" 420000]
  by (simp add: Session_findById_def hex24_def mongo_example_def session_doc1_def)

subsection \<open>A close attempt for a session that does not exist\<close>

text \<open>
  When the session id matches no session, no path writes anything. The client's
  \<open>closeSession\<close> returns with the store as it was. The beacon endpoint answers 404 for
  a request that passed the field validation, and leaves the store as it was whatever
  else the payload holds. The logout endpoint answers 404 when the id can be cast to an
  ObjectId and 500 when it cannot (the \<open>CastError\<close> of the lookup ends in the \<open>catch\<close>
  branch), and leaves the store as it was in both cases.
\<close>

lemma unknown_session_store_unchanged:
  "(sessions db sid = None \<longrightarrow> closeSession r sid uid now db = db) \<and>
   (sessions db sid = None \<and> req_method req \<noteq> ''OPTIONS'' \<and> req_body req = Some p \<and>
      req_session_id p = Some sid \<and> sid \<noteq> [] \<and> truthy (req_user_id p) \<longrightarrow>
      close_session req now db = (Response 404 (ErrorBody ''Session not found''), db)) \<and>
   (sessions db sid = None \<and> req_body req = Some p \<and> req_session_id p = Some sid \<longrightarrow>
      snd (close_session req now db) = db) \<and>
   (Session_findById castable mdb sid = Inr None \<and> sid \<noteq> [] \<longrightarrow>
      logout castable (Some sid) req_user now mdb = (ApiError 404 ''Session not found'', mdb)) \<and>
   (Session_findById castable mdb sid = Inl CastError \<and> sid \<noteq> [] \<longrightarrow>
      logout castable (Some sid) req_user now mdb =
        (ApiError 500 ''Server error during logout'', mdb)) \<and>
   (find (\<lambda>s. s_id s = sid) (session_docs mdb) = None \<longrightarrow>
      snd (logout castable (Some sid) req_user now mdb) = mdb)"
  by (auto simp: closeSession_def close_session_def logout_def truthy_def store_defs
        Session_findById_def split: option.splits)

text \<open>
  Claim C5, where the logout endpoint breaks it. Carol asks to log out of the session
  \<open>zz\<close>: no session has that id, and it is not an ObjectId. The lookup throws and the
  endpoint answers 500, the server error, where the claim says not-found; the store is
  as it was. With an id of the right form that no session has, the same endpoint
  answers 404. On the Postgres side the id \<open>zz\<close> gets the claimed behaviour: the beacon
  endpoint answers 404 and the client's \<open>closeSession\<close> returns, without a write.
\<close>

theorem logout_malformed_id_server_error:
  "logout hex24 (Some ''zz'') ''c00000000000000000000001'' 420000 mongo_example =
     (ApiError 500 ''Server error during logout'', mongo_example) \<and>
   logout hex24 (Some ''5e5510000000000000000099'') ''c00000000000000000000001'' 420000
     mongo_example =
     (ApiError 404 ''Session not found'', mongo_example) \<and>
   close_session
     (sendBeacon \<lparr>req_session_id = Some ''zz'', req_user_id = Some ''u1'',
                  req_logout_at = ValidDate 420000\<rparr>) 420000 pg_example
   = (Response 404 (ErrorBody ''Session not found''), pg_example) \<and>
   closeSession (Authenticated ''u1'') ''zz'' ''u1'' 420000 pg_example = pg_example"
  by (simp add: logout_def Session_findById_def closeSession_def close_session_def
        store_defs example_defs)

subsection \<open>What a close writes\<close>

text \<open>
  The client's \<open>closeSession\<close>, run by the owner of the session for their own profile:
  the whole store afterwards. Each of the two updates is written or refused on its own.
\<close>

lemma closeSession_effect:
  assumes "sessions db sid = Some s" and "user_id s = u" and "profiles db u = Some p"
  shows "closeSession (Authenticated u) sid u T db =
           db\<lparr>sessions :=
                (if int4 (round_minutes (T - login_at s))
                 then (sessions db)(sid \<mapsto>
                        s\<lparr>logout_at := Some T,
                          duration_minutes := Some (round_minutes (T - login_at s))\<rparr>)
                 else sessions db),
              profiles :=
                (if int4 (total_active_minutes p + round_minutes (T - login_at s))
                 then (profiles db)(u \<mapsto>
                        p\<lparr>last_logout_at := Some T,
                          total_active_minutes :=
                            total_active_minutes p + round_minutes (T - login_at s)\<rparr>)
                 else profiles db)\<rparr>"
  using assms by (simp add: closeSession_def store_defs Let_def)

text \<open>
  The edge function on a request that passes the validation and names an existing
  session: the answer and the whole store afterwards. \<open>T\<close> is the payload's \<open>logout_at\<close>,
  or the server's clock when the payload has none.
\<close>

lemma close_session_effect:
  assumes "req_method req \<noteq> ''OPTIONS''" and "req_body req = Some pl"
    and "req_session_id pl = Some sid" and "sid \<noteq> []"
    and "req_user_id pl = Some u" and "u \<noteq> []"
    and "req_logout_at pl = ValidDate T \<or> (req_logout_at pl = NoDate \<and> T = now)"
    and "sessions db sid = Some s"
  shows "close_session req now db =
           (Response 200 (ClosedBody (floored_minutes (T - login_at s))),
            db\<lparr>sessions :=
                 (if int4 (floored_minutes (T - login_at s))
                  then (sessions db)(sid \<mapsto>
                         s\<lparr>logout_at := Some T,
                           duration_minutes := Some (floored_minutes (T - login_at s))\<rparr>)
                  else sessions db),
               profiles :=
                 (case profiles db u of
                    None \<Rightarrow> profiles db
                  | Some p \<Rightarrow>
                      if int4 (total_active_minutes p + floored_minutes (T - login_at s))
                      then (profiles db)(u \<mapsto>
                             p\<lparr>last_logout_at := Some T,
                               total_active_minutes :=
                                 total_active_minutes p + floored_minutes (T - login_at s)\<rparr>)
                      else profiles db)\<rparr>)"
  using assms by (auto simp: close_session_def store_defs Let_def split: option.splits)

text \<open>
  The logout endpoint called by the owner of the session: the answer, the caller's user
  document and the session document afterwards.
\<close>

lemma logout_effect:
  assumes "sid \<noteq> []" and "Session_findById castable db sid = Inr (Some s)"
    and "userId s = u" and "User_findById db u = Some usr"
  shows "fst (logout castable (Some sid) u now db) =
           LogoutOk (floored_minutes (now - loginAt s))"
    and "User_findById (snd (logout castable (Some sid) u now db)) u =
           Some (usr\<lparr>lastLogoutAt := Some now,
                     totalActiveMinutes :=
                       Some ((case totalActiveMinutes usr of None \<Rightarrow> 0 | Some m \<Rightarrow> m)
                             + floored_minutes (now - loginAt s))\<rparr>)"
    and "Session_findById castable (snd (logout castable (Some sid) u now db)) sid =
           Inr (Some (s\<lparr>logoutAt := Some now,
                        durationMinutes := Some (floored_minutes (now - loginAt s))\<rparr>))"
proof -
  let ?d = "floored_minutes (now - loginAt s)"
  let ?s' = "s\<lparr>logoutAt := Some now, durationMinutes := Some ?d\<rparr>"
  let ?db1 = "session_save ?s' db"
  let ?u' = "usr\<lparr>lastLogoutAt := Some now,
                  totalActiveMinutes :=
                    Some ((case totalActiveMinutes usr of None \<Rightarrow> 0 | Some m \<Rightarrow> m) + ?d)\<rparr>"
  have co: "castable sid" and fs: "find (\<lambda>d. s_id d = sid) (session_docs db) = Some s"
    using assms(2) by (auto simp: Session_findById_def split: if_splits)
  have users1: "users ?db1 = users db" by (simp add: session_save_def)
  have fu: "User_findById ?db1 u = Some usr"
    using assms(4) users1 by (simp add: User_findById_def)
  have res: "logout castable (Some sid) u now db = (LogoutOk ?d, user_save ?u' ?db1)"
    using assms(1-3) fu by (simp add: logout_def Let_def)
  show "fst (logout castable (Some sid) u now db) = LogoutOk ?d" by (simp add: res)
  have uid: "u_id usr = u" using assms(4) by (auto simp: User_findById_def dest: find_key)
  have "find (\<lambda>d. u_id d = u) (map (\<lambda>d. if u_id d = u_id ?u' then ?u' else d) (users db))
          = Some ?u'"
    using assms(4) uid by (intro find_replaced[where y = usr]) (simp_all add: User_findById_def)
  then show "User_findById (snd (logout castable (Some sid) u now db)) u = Some ?u'"
    by (simp add: res user_save_def User_findById_def users1)
  have sk: "s_id s = sid" using fs by (auto dest: find_key)
  have "find (\<lambda>d. s_id d = sid)
          (map (\<lambda>d. if s_id d = s_id ?s' then ?s' else d) (session_docs db)) = Some ?s'"
    using fs sk by (intro find_replaced[where y = s]) simp_all
  then show "Session_findById castable (snd (logout castable (Some sid) u now db)) sid =
               Inr (Some ?s')"
    using co by (simp add: res user_save_def session_save_def Session_findById_def)
qed

text \<open>
  Claim C6, as the code has it. Closing a session at logout time \<open>T\<close> sets the owning
  profile's \<open>last_logout_at\<close> to \<open>T\<close> and adds to its \<open>total_active_minutes\<close> exactly the
  \<open>duration_minutes\<close> the close stores on the session, on each of the three paths:
  \<^item> the client's \<open>closeSession\<close>, called by the signed-in owner \<open>u\<close> for a session of
    theirs, the profile of \<open>u\<close> being there, when the duration and the new total fit the
    \<open>INTEGER\<close> columns;
  \<^item> the beacon endpoint, for a validated payload whose \<open>user_id\<close> is the session's
    owner (\<open>T\<close> is the payload's \<open>logout_at\<close>, a date the store takes, or the server's
    clock without one), when the duration and the new total fit the \<open>INTEGER\<close> columns;
  \<^item> the logout endpoint, called by the session's owner, whose user document is there
    (an absent total counts as 0).
\<close>

theorem close_updates_profile:
  "(sessions db sid = Some s \<and> user_id s = u \<and> profiles db u = Some p \<and>
    int4 (round_minutes (T - login_at s)) \<and>
    int4 (total_active_minutes p + round_minutes (T - login_at s)) \<longrightarrow>
      sessions (closeSession (Authenticated u) sid u T db) sid =
        Some (s\<lparr>logout_at := Some T,
                duration_minutes := Some (round_minutes (T - login_at s))\<rparr>) \<and>
      profiles (closeSession (Authenticated u) sid u T db) u =
        Some (p\<lparr>last_logout_at := Some T,
                total_active_minutes :=
                  total_active_minutes p + round_minutes (T - login_at s)\<rparr>)) \<and>
   (req_method req \<noteq> ''OPTIONS'' \<and> req_body req = Some pl \<and>
    req_session_id pl = Some sid \<and> sid \<noteq> [] \<and> req_user_id pl = Some u \<and> u \<noteq> [] \<and>
    (req_logout_at pl = ValidDate T \<or> (req_logout_at pl = NoDate \<and> T = now)) \<and>
    sessions db sid = Some s \<and> user_id s = u \<and> profiles db u = Some p \<and>
    int4 (floored_minutes (T - login_at s)) \<and>
    int4 (total_active_minutes p + floored_minutes (T - login_at s)) \<longrightarrow>
      fst (close_session req now db) =
        Response 200 (ClosedBody (floored_minutes (T - login_at s))) \<and>
      sessions (snd (close_session req now db)) sid =
        Some (s\<lparr>logout_at := Some T,
                duration_minutes := Some (floored_minutes (T - login_at s))\<rparr>) \<and>
      profiles (snd (close_session req now db)) u =
        Some (p\<lparr>last_logout_at := Some T,
                total_active_minutes :=
                  total_active_minutes p + floored_minutes (T - login_at s)\<rparr>)) \<and>
   (msid \<noteq> [] \<and> Session_findById castable mdb msid = Inr (Some ms) \<and> userId ms = mu \<and>
    User_findById mdb mu = Some usr \<longrightarrow>
      fst (logout castable (Some msid) mu T mdb) =
        LogoutOk (floored_minutes (T - loginAt ms)) \<and>
      Session_findById castable (snd (logout castable (Some msid) mu T mdb)) msid =
        Inr (Some (ms\<lparr>logoutAt := Some T,
                      durationMinutes := Some (floored_minutes (T - loginAt ms))\<rparr>)) \<and>
      User_findById (snd (logout castable (Some msid) mu T mdb)) mu =
        Some (usr\<lparr>lastLogoutAt := Some T,
                  totalActiveMinutes :=
                    Some ((case totalActiveMinutes usr of None \<Rightarrow> 0 | Some m \<Rightarrow> m)
                          + floored_minutes (T - loginAt ms))\<rparr>))"
proof (intro conjI impI)
  assume a: "sessions db sid = Some s \<and> user_id s = u \<and> profiles db u = Some p \<and>
    int4 (round_minutes (T - login_at s)) \<and>
    int4 (total_active_minutes p + round_minutes (T - login_at s))"
  note e = closeSession_effect [of db sid s u p T]
  show "sessions (closeSession (Authenticated u) sid u T db) sid =
        Some (s\<lparr>logout_at := Some T,
                duration_minutes := Some (round_minutes (T - login_at s))\<rparr>)"
    using a e by simp
  show "profiles (closeSession (Authenticated u) sid u T db) u =
        Some (p\<lparr>last_logout_at := Some T,
                total_active_minutes :=
                  total_active_minutes p + round_minutes (T - login_at s)\<rparr>)"
    using a e by simp
next
  assume b: "req_method req \<noteq> ''OPTIONS'' \<and> req_body req = Some pl \<and>
    req_session_id pl = Some sid \<and> sid \<noteq> [] \<and> req_user_id pl = Some u \<and> u \<noteq> [] \<and>
    (req_logout_at pl = ValidDate T \<or> (req_logout_at pl = NoDate \<and> T = now)) \<and>
    sessions db sid = Some s \<and> user_id s = u \<and> profiles db u = Some p \<and>
    int4 (floored_minutes (T - login_at s)) \<and>
    int4 (total_active_minutes p + floored_minutes (T - login_at s))"
  note e = close_session_effect [of req pl sid u T now db s]
  show "fst (close_session req now db) =
        Response 200 (ClosedBody (floored_minutes (T - login_at s)))"
    using b e by simp
  show "sessions (snd (close_session req now db)) sid =
        Some (s\<lparr>logout_at := Some T,
                duration_minutes := Some (floored_minutes (T - login_at s))\<rparr>)"
    using b e by simp
  show "profiles (snd (close_session req now db)) u =
        Some (p\<lparr>last_logout_at := Some T,
                total_active_minutes :=
                  total_active_minutes p + floored_minutes (T - login_at s)\<rparr>)"
    using b e by simp
next
  assume c: "msid \<noteq> [] \<and> Session_findById castable mdb msid = Inr (Some ms) \<and>
    userId ms = mu \<and> User_findById mdb mu = Some usr"
  note e = logout_effect [of msid castable mdb ms mu usr T]
  show "fst (logout castable (Some msid) mu T mdb) =
          LogoutOk (floored_minutes (T - loginAt ms))"
    using c e(1) by simp
  show "Session_findById castable (snd (logout castable (Some msid) mu T mdb)) msid =
        Inr (Some (ms\<lparr>logoutAt := Some T,
                      durationMinutes := Some (floored_minutes (T - loginAt ms))\<rparr>))"
    using c e(3) by simp
  show "User_findById (snd (logout castable (Some msid) mu T mdb)) mu =
        Some (usr\<lparr>lastLogoutAt := Some T,
                  totalActiveMinutes :=
                    Some ((case totalActiveMinutes usr of None \<Rightarrow> 0 | Some m \<Rightarrow> m)
                          + floored_minutes (T - loginAt ms))\<rparr>)"
    using c e(2) by simp
qed

text \<open>
  The open session of the examples closed seven minutes after its start, on each path:
  the stored duration is 7 and the owner's total goes from 0 to 7.
\<close>

theorem close_updates_profile_witness:
  "sessions (closeSession (Authenticated ''u1'') ''s1'' ''u1'' 420000 pg_example) ''s1'' =
     Some (session1\<lparr>logout_at := Some 420000, duration_minutes := Some 7\<rparr>) \<and>
   profiles (closeSession (Authenticated ''u1'') ''s1'' ''u1'' 420000 pg_example) ''u1'' =
     Some (alice\<lparr>last_logout_at := Some 420000, total_active_minutes := 7\<rparr>) \<and>
   fst (close_session
          (sendBeacon \<lparr>req_session_id = Some ''s1'', req_user_id = Some ''u1'',
                       req_logout_at = ValidDate 420000\<rparr>) 420500 pg_example) =
     Response 200 (ClosedBody 7) \<and>
   profiles (snd (close_session
          (sendBeacon \<lparr>req_session_id = Some ''s1'', req_user_id = Some ''u1'',
                       req_logout_at = ValidDate 420000\<rparr>) 420500 pg_example)) ''u1'' =
     Some (alice\<lparr>last_logout_at := Some 420000, total_active_minutes := 7\<rparr>) \<and>
   fst (logout hex24 (Some ''5e5510000000000000000001'') ''c00000000000000000000001'' 420000
          mongo_example) = LogoutOk 7 \<and>
   User_findById
     (snd (logout hex24 (Some ''5e5510000000000000000001'') ''c00000000000000000000001''
             420000 mongo_example)) ''c00000000000000000000001'' =
     Some (carol\<lparr>lastLogoutAt := Some 420000, totalActiveMinutes := Some 7\<rparr>)"
  using close_updates_profile
          [where db = pg_example and sid = "''s1''" and s = session1 and u = "''u1''"
             and p = alice and T = 420000
             and req = "sendBeacon \<lparr>req_session_id = Some ''s1'', req_user_id = Some ''u1'',
                                     req_logout_at = ValidDate 420000\<rparr>"
             and pl = "\<lparr>req_session_id = Some ''s1'', req_user_id = Some ''u1'',
                         req_logout_at = ValidDate 420000\<rparr>"
             and now = 420500 and castable = hex24
             and msid = "''5e5510000000000000000001''" and mdb = mongo_example
             and ms = session_doc1 and mu = "''c00000000000000000000001''" and usr = carol]
  by (simp add: example_defs round_minutes_def floored_minutes_def int4_def
        Session_findById_def User_findById_def)

text \<open>
  The claim as stated fails where a value does not fit its column. In both cases
  Alice's session \<open>s1\<close>, opened at instant 0, exists, the caller is its owner and her
  profile is read.
  \<^item> Her total is 2147483640 and the client closes the session ten minutes after its
    start. The session gets the duration 10, but the new total 2147483650 is more than an
    \<open>INTEGER\<close> holds: the profile update is refused, and \<open>last_logout_at\<close> and the total
    stay as they were.
  \<^item> Her total is 0 and a beacon gives a \<open>logout_at\<close> 2147483648 minutes after
    \<open>login_at\<close> (instant 128849018880000). The duration does not fit: both updates are
    refused, nothing is written, and the answer is 200 with that duration all the same.
\<close>

theorem close_out_of_range_counterexample:
  "sessions (closeSession (Authenticated ''u1'') ''s1'' ''u1'' 600000 pg_big_total) ''s1'' =
     Some (session1\<lparr>logout_at := Some 600000, duration_minutes := Some 10\<rparr>) \<and>
   profiles pg_big_total ''u1'' = Some (alice\<lparr>total_active_minutes := 2147483640\<rparr>) \<and>
   profiles (closeSession (Authenticated ''u1'') ''s1'' ''u1'' 600000 pg_big_total) ''u1'' =
     Some (alice\<lparr>total_active_minutes := 2147483640\<rparr>) \<and>
   last_logout_at (alice\<lparr>total_active_minutes := 2147483640\<rparr>) = None \<and>
   profiles pg_example ''u1'' = Some alice \<and>
   close_session
     (sendBeacon \<lparr>req_session_id = Some ''s1'', req_user_id = Some ''u1'',
                  req_logout_at = ValidDate 128849018880000\<rparr>) 420500 pg_example
   = (Response 200 (ClosedBody 2147483648), pg_example)"
  by (simp add: closeSession_def close_session_def store_defs example_defs Let_def
        round_minutes_def floored_minutes_def int4_def)

subsection \<open>The beacon endpoint trusts the payload's user id\<close>

text \<open>
  With a \<open>logout_at\<close> that is no date the handler ends in its \<open>catch\<close> branch, after the
  session was found and before anything is written.
\<close>

lemma close_session_invalid_date:
  assumes "req_method req \<noteq> ''OPTIONS''" and "req_body req = Some pl"
    and "req_session_id pl = Some sid" and "sid \<noteq> []"
    and "req_user_id pl = Some u" and "u \<noteq> []"
    and "req_logout_at pl = InvalidDate" and "sessions db sid = Some s"
  shows "close_session req now db = (Response 500 (ErrorBody ''Internal server error''), db)"
  using assms by (simp add: close_session_def store_defs)

text \<open>
  With a date the timestamp columns refuse, the handler computes the duration and answers
  200, and both updates fail: nothing is written.
\<close>

lemma close_session_unstorable_date:
  assumes "req_method req \<noteq> ''OPTIONS''" and "req_body req = Some pl"
    and "req_session_id pl = Some sid" and "sid \<noteq> []"
    and "req_user_id pl = Some u" and "u \<noteq> []"
    and "req_logout_at pl = UnstorableDate T" and "sessions db sid = Some s"
  shows "close_session req now db =
           (Response 200 (ClosedBody (floored_minutes (T - login_at s))), db)"
  using assms by (simp add: close_session_def store_defs Let_def split: option.splits)




subsection \<open>Closing a session twice\<close>

text \<open>
  Claim C1, as the code has it. No close path reads \<open>logout_at\<close>: a second close of a
  session that is already closed runs like the first. On each path, after a close at
  \<open>T1\<close> and a second close at \<open>T2\<close> of the same session, the session holds the logout
  time and the duration of the second close, and the owner's total has grown by the
  duration computed at \<open>T1\<close> plus the duration computed at \<open>T2\<close> (both measured from
  \<open>login_at\<close>). On the two Postgres paths this is so when the two durations and the two
  totals written fit the \<open>INTEGER\<close> columns.
\<close>

theorem close_twice_adds_both_durations:
  "(sessions db sid = Some s \<and> user_id s = u \<and> profiles db u = Some p \<and>
    int4 (round_minutes (T1 - login_at s)) \<and> int4 (round_minutes (T2 - login_at s)) \<and>
    int4 (total_active_minutes p + round_minutes (T1 - login_at s)) \<and>
    int4 (total_active_minutes p + round_minutes (T1 - login_at s)
            + round_minutes (T2 - login_at s)) \<longrightarrow>
      sessions (closeSession (Authenticated u) sid u T2
                 (closeSession (Authenticated u) sid u T1 db)) sid =
        Some (s\<lparr>logout_at := Some T2,
                duration_minutes := Some (round_minutes (T2 - login_at s))\<rparr>) \<and>
      profiles (closeSession (Authenticated u) sid u T2
                 (closeSession (Authenticated u) sid u T1 db)) u =
        Some (p\<lparr>last_logout_at := Some T2,
                total_active_minutes :=
                  total_active_minutes p + round_minutes (T1 - login_at s)
                    + round_minutes (T2 - login_at s)\<rparr>)) \<and>
   (sessions db sid = Some s \<and> user_id s = u \<and> profiles db u = Some p \<and>
    sid \<noteq> [] \<and> u \<noteq> [] \<and>
    int4 (floored_minutes (T1 - login_at s)) \<and> int4 (floored_minutes (T2 - login_at s)) \<and>
    int4 (total_active_minutes p + floored_minutes (T1 - login_at s)) \<and>
    int4 (total_active_minutes p + floored_minutes (T1 - login_at s)
            + floored_minutes (T2 - login_at s)) \<longrightarrow>
      sessions
        (snd (close_session
                (sendBeacon \<lparr>req_session_id = Some sid, req_user_id = Some u,
                             req_logout_at = ValidDate T2\<rparr>) now2
           (snd (close_session
                   (sendBeacon \<lparr>req_session_id = Some sid, req_user_id = Some u,
                                req_logout_at = ValidDate T1\<rparr>) now1 db)))) sid =
        Some (s\<lparr>logout_at := Some T2,
                duration_minutes := Some (floored_minutes (T2 - login_at s))\<rparr>) \<and>
      profiles
        (snd (close_session
                (sendBeacon \<lparr>req_session_id = Some sid, req_user_id = Some u,
                             req_logout_at = ValidDate T2\<rparr>) now2
           (snd (close_session
                   (sendBeacon \<lparr>req_session_id = Some sid, req_user_id = Some u,
                                req_logout_at = ValidDate T1\<rparr>) now1 db)))) u =
        Some (p\<lparr>last_logout_at := Some T2,
                total_active_minutes :=
                  total_active_minutes p + floored_minutes (T1 - login_at s)
                    + floored_minutes (T2 - login_at s)\<rparr>)) \<and>
   (msid \<noteq> [] \<and> Session_findById castable mdb msid = Inr (Some ms) \<and> userId ms = mu \<and>
    User_findById mdb mu = Some usr \<longrightarrow>
      Session_findById castable
        (snd (logout castable (Some msid) mu T2
           (snd (logout castable (Some msid) mu T1 mdb)))) msid =
        Inr (Some (ms\<lparr>logoutAt := Some T2,
                      durationMinutes := Some (floored_minutes (T2 - loginAt ms))\<rparr>)) \<and>
      User_findById
        (snd (logout castable (Some msid) mu T2
           (snd (logout castable (Some msid) mu T1 mdb)))) mu =
        Some (usr\<lparr>lastLogoutAt := Some T2,
                  totalActiveMinutes :=
                    Some ((case totalActiveMinutes usr of None \<Rightarrow> 0 | Some m \<Rightarrow> m)
                          + floored_minutes (T1 - loginAt ms)
                          + floored_minutes (T2 - loginAt ms))\<rparr>))"
proof (intro conjI impI)
  assume a: "sessions db sid = Some s \<and> user_id s = u \<and> profiles db u = Some p \<and>
    int4 (round_minutes (T1 - login_at s)) \<and> int4 (round_minutes (T2 - login_at s)) \<and>
    int4 (total_active_minutes p + round_minutes (T1 - login_at s)) \<and>
    int4 (total_active_minutes p + round_minutes (T1 - login_at s)
            + round_minutes (T2 - login_at s))"
  let ?s1 = "s\<lparr>logout_at := Some T1,
               duration_minutes := Some (round_minutes (T1 - login_at s))\<rparr>"
  let ?p1 = "p\<lparr>last_logout_at := Some T1,
               total_active_minutes := total_active_minutes p + round_minutes (T1 - login_at s)\<rparr>"
  let ?db1 = "closeSession (Authenticated u) sid u T1 db"
  have e1: "?db1 = db\<lparr>sessions := (sessions db)(sid \<mapsto> ?s1),
                      profiles := (profiles db)(u \<mapsto> ?p1)\<rparr>"
    using a closeSession_effect [of db sid s u p T1] by simp
  have s1: "sessions ?db1 sid = Some ?s1" and p1: "profiles ?db1 u = Some ?p1"
    by (simp_all add: e1)
  have u1: "user_id ?s1 = u" using a by simp
  note e2 = closeSession_effect [OF s1 u1 p1, of T2]
  show "sessions (closeSession (Authenticated u) sid u T2 ?db1) sid =
        Some (s\<lparr>logout_at := Some T2,
                duration_minutes := Some (round_minutes (T2 - login_at s))\<rparr>)"
    using a by (simp add: e2)
  show "profiles (closeSession (Authenticated u) sid u T2 ?db1) u =
        Some (p\<lparr>last_logout_at := Some T2,
                total_active_minutes :=
                  total_active_minutes p + round_minutes (T1 - login_at s)
                    + round_minutes (T2 - login_at s)\<rparr>)"
    using a by (simp add: e2)
next
  assume b: "sessions db sid = Some s \<and> user_id s = u \<and> profiles db u = Some p \<and>
    sid \<noteq> [] \<and> u \<noteq> [] \<and>
    int4 (floored_minutes (T1 - login_at s)) \<and> int4 (floored_minutes (T2 - login_at s)) \<and>
    int4 (total_active_minutes p + floored_minutes (T1 - login_at s)) \<and>
    int4 (total_active_minutes p + floored_minutes (T1 - login_at s)
            + floored_minutes (T2 - login_at s))"
  let ?pl1 = "\<lparr>req_session_id = Some sid, req_user_id = Some u,
                req_logout_at = ValidDate T1\<rparr>"
  let ?pl2 = "\<lparr>req_session_id = Some sid, req_user_id = Some u,
                req_logout_at = ValidDate T2\<rparr>"
  let ?s1 = "s\<lparr>logout_at := Some T1,
               duration_minutes := Some (floored_minutes (T1 - login_at s))\<rparr>"
  let ?p1 = "p\<lparr>last_logout_at := Some T1,
               total_active_minutes :=
                 total_active_minutes p + floored_minutes (T1 - login_at s)\<rparr>"
  let ?db1 = "snd (close_session (sendBeacon ?pl1) now1 db)"
  have e1: "?db1 = db\<lparr>sessions := (sessions db)(sid \<mapsto> ?s1),
                      profiles := (profiles db)(u \<mapsto> ?p1)\<rparr>"
    using b close_session_effect [of "sendBeacon ?pl1" ?pl1 sid u T1 now1 db s]
    by (simp add: sendBeacon_def)
  have s1: "sessions ?db1 sid = Some ?s1" and p1: "profiles ?db1 u = Some ?p1"
    by (simp_all add: e1)
  have e2: "snd (close_session (sendBeacon ?pl2) now2 ?db1) =
      ?db1\<lparr>sessions := (sessions ?db1)(sid \<mapsto>
               ?s1\<lparr>logout_at := Some T2,
                   duration_minutes := Some (floored_minutes (T2 - login_at s))\<rparr>),
           profiles := (profiles ?db1)(u \<mapsto>
               ?p1\<lparr>last_logout_at := Some T2,
                   total_active_minutes :=
                     total_active_minutes p + floored_minutes (T1 - login_at s)
                       + floored_minutes (T2 - login_at s)\<rparr>)\<rparr>"
    using b s1 p1 close_session_effect [of "sendBeacon ?pl2" ?pl2 sid u T2 now2 ?db1 ?s1]
    by (simp add: sendBeacon_def)
  show "sessions (snd (close_session (sendBeacon ?pl2) now2 ?db1)) sid =
        Some (s\<lparr>logout_at := Some T2,
                duration_minutes := Some (floored_minutes (T2 - login_at s))\<rparr>)"
    by (simp add: e2)
  show "profiles (snd (close_session (sendBeacon ?pl2) now2 ?db1)) u =
        Some (p\<lparr>last_logout_at := Some T2,
                total_active_minutes :=
                  total_active_minutes p + floored_minutes (T1 - login_at s)
                    + floored_minutes (T2 - login_at s)\<rparr>)"
    by (simp add: e2)
next
  assume c: "msid \<noteq> [] \<and> Session_findById castable mdb msid = Inr (Some ms) \<and>
    userId ms = mu \<and> User_findById mdb mu = Some usr"
  let ?d1 = "floored_minutes (T1 - loginAt ms)"
  let ?ms1 = "ms\<lparr>logoutAt := Some T1, durationMinutes := Some ?d1\<rparr>"
  let ?u1 = "usr\<lparr>lastLogoutAt := Some T1,
                  totalActiveMinutes :=
                    Some ((case totalActiveMinutes usr of None \<Rightarrow> 0 | Some m \<Rightarrow> m) + ?d1)\<rparr>"
  let ?mdb1 = "snd (logout castable (Some msid) mu T1 mdb)"
  have u1: "User_findById ?mdb1 mu = Some ?u1"
    using c logout_effect(2) [of msid castable mdb ms mu usr T1] by simp
  have s1: "Session_findById castable ?mdb1 msid = Inr (Some ?ms1)"
    using c logout_effect(3) [of msid castable mdb ms mu usr T1] by simp
  have n: "msid \<noteq> []" and o: "userId ?ms1 = mu" using c by simp_all
  show "Session_findById castable (snd (logout castable (Some msid) mu T2 ?mdb1)) msid =
        Inr (Some (ms\<lparr>logoutAt := Some T2,
                      durationMinutes := Some (floored_minutes (T2 - loginAt ms))\<rparr>))"
    using logout_effect(3) [OF n s1 o u1, of T2] by simp
  show "User_findById (snd (logout castable (Some msid) mu T2 ?mdb1)) mu =
        Some (usr\<lparr>lastLogoutAt := Some T2,
                  totalActiveMinutes :=
                    Some ((case totalActiveMinutes usr of None \<Rightarrow> 0 | Some m \<Rightarrow> m)
                          + floored_minutes (T1 - loginAt ms)
                          + floored_minutes (T2 - loginAt ms))\<rparr>)"
    using logout_effect(2) [OF n s1 o u1, of T2] by simp
qed

text \<open>
  Alice's session closed by the client at minute 7 and closed again at minute 10: the
  session ends with duration 10 and her total is 17. The same with two beacons, and with
  two logout requests for Carol's session.
\<close>

theorem close_twice_adds_both_durations_witness:
  "sessions (closeSession (Authenticated ''u1'') ''s1'' ''u1'' 600000
              (closeSession (Authenticated ''u1'') ''s1'' ''u1'' 420000 pg_example)) ''s1'' =
     Some (session1\<lparr>logout_at := Some 600000, duration_minutes := Some 10\<rparr>) \<and>
   profiles (closeSession (Authenticated ''u1'') ''s1'' ''u1'' 600000
              (closeSession (Authenticated ''u1'') ''s1'' ''u1'' 420000 pg_example)) ''u1'' =
     Some (alice\<lparr>last_logout_at := Some 600000, total_active_minutes := 17\<rparr>) \<and>
   sessions
     (snd (close_session
             (sendBeacon \<lparr>req_session_id = Some ''s1'', req_user_id = Some ''u1'',
                          req_logout_at = ValidDate 600000\<rparr>) 600500
        (snd (close_session
                (sendBeacon \<lparr>req_session_id = Some ''s1'', req_user_id = Some ''u1'',
                             req_logout_at = ValidDate 420000\<rparr>) 420500 pg_example)))) ''s1'' =
     Some (session1\<lparr>logout_at := Some 600000, duration_minutes := Some 10\<rparr>) \<and>
   profiles
     (snd (close_session
             (sendBeacon \<lparr>req_session_id = Some ''s1'', req_user_id = Some ''u1'',
                          req_logout_at = ValidDate 600000\<rparr>) 600500
        (snd (close_session
                (sendBeacon \<lparr>req_session_id = Some ''s1'', req_user_id = Some ''u1'',
                             req_logout_at = ValidDate 420000\<rparr>) 420500 pg_example)))) ''u1'' =
     Some (alice\<lparr>last_logout_at := Some 600000, total_active_minutes := 17\<rparr>) \<and>
   Session_findById hex24
     (snd (logout hex24 (Some ''5e5510000000000000000001'') ''c00000000000000000000001'' 600000
        (snd (logout hex24 (Some ''5e5510000000000000000001'') ''c00000000000000000000001''
                420000 mongo_example)))) ''5e5510000000000000000001'' =
     Inr (Some (session_doc1\<lparr>logoutAt := Some 600000, durationMinutes := Some 10\<rparr>)) \<and>
   User_findById
     (snd (logout hex24 (Some ''5e5510000000000000000001'') ''c00000000000000000000001'' 600000
        (snd (logout hex24 (Some ''5e5510000000000000000001'') ''c00000000000000000000001''
                420000 mongo_example)))) ''c00000000000000000000001'' =
     Some (carol\<lparr>lastLogoutAt := Some 600000, totalActiveMinutes := Some 17\<rparr>)"
  using close_twice_adds_both_durations
          [where db = pg_example and sid = "''s1''" and s = session1 and u = "''u1''"
             and p = alice and ?T1.0 = 420000 and ?T2.0 = 600000
             and ?now1.0 = 420500 and ?now2.0 = 600500 and castable = hex24
             and msid = "''5e5510000000000000000001''" and mdb = mongo_example
             and ms = session_doc1 and mu = "''c00000000000000000000001''" and usr = carol]
  by (simp add: example_defs round_minutes_def floored_minutes_def int4_def
        Session_findById_def User_findById_def)

text \<open>
  The claim as stated fails. One close of Alice's seven-minute session leaves her total
  at 7. A second close of the same session at the same instant, by the beacon endpoint
  after the client or by the client again, stores the duration 7 once more and leaves the
  total at 14, not 7; two logout requests for Carol's session do the same to her total.
\<close>

theorem close_twice_counterexample:
  "map_option total_active_minutes
     (profiles (closeSession (Authenticated ''u1'') ''s1'' ''u1'' 420000 pg_example) ''u1'')
     = Some 7 \<and>
   map_option logout_at
     (sessions (closeSession (Authenticated ''u1'') ''s1'' ''u1'' 420000 pg_example) ''s1'')
     = Some (Some 420000) \<and>
   map_option duration_minutes
     (sessions
        (snd (close_session
                (sendBeacon \<lparr>req_session_id = Some ''s1'', req_user_id = Some ''u1'',
                             req_logout_at = ValidDate 420000\<rparr>) 420000
           (closeSession (Authenticated ''u1'') ''s1'' ''u1'' 420000 pg_example))) ''s1'')
     = Some (Some 7) \<and>
   map_option total_active_minutes
     (profiles
        (snd (close_session
                (sendBeacon \<lparr>req_session_id = Some ''s1'', req_user_id = Some ''u1'',
                             req_logout_at = ValidDate 420000\<rparr>) 420000
           (closeSession (Authenticated ''u1'') ''s1'' ''u1'' 420000 pg_example))) ''u1'')
     = Some 14 \<and>
   map_option total_active_minutes
     (profiles
        (closeSession (Authenticated ''u1'') ''s1'' ''u1'' 420000
           (closeSession (Authenticated ''u1'') ''s1'' ''u1'' 420000 pg_example)) ''u1'')
     = Some 14 \<and>
   map_option totalActiveMinutes
     (User_findById
        (snd (logout hex24 (Some ''5e5510000000000000000001'') ''c00000000000000000000001''
                420000 mongo_example)) ''c00000000000000000000001'')
     = Some (Some 7) \<and>
   map_option totalActiveMinutes
     (User_findById
        (snd (logout hex24 (Some ''5e5510000000000000000001'') ''c00000000000000000000001''
                420000
           (snd (logout hex24 (Some ''5e5510000000000000000001'')
                   ''c00000000000000000000001'' 420000 mongo_example))))
        ''c00000000000000000000001'')
     = Some (Some 14)"
  by (simp add: closeSession_def close_session_def logout_def store_defs example_defs
        Let_def round_minutes_def floored_minutes_def int4_def Session_findById_def
        User_findById_def session_save_def user_save_def)

subsection \<open>The duration a close stores\<close>

text \<open>
  The rounding on the spec's example: from 10:00:00 to 10:15:30 is 930000 ms, which
  rounds to 16 minutes; and 29999 ms round to 0, 30000 ms to 1.
\<close>

lemma round_minutes_examples:
  "round_minutes 930000 = 16" "round_minutes 29999 = 0" "round_minutes 30000 = 1"
  "round_minutes (- 30000) = 0" "round_minutes (- 30001) = - 1"
  by (simp_all add: round_minutes_def)

text \<open>
  The client's rounding and the servers' floored rounding agree from half a minute
  before \<open>login_at\<close> on, and differ before that.
\<close>

lemma floored_minutes_eq_round_minutes:
  "- 30000 \<le> ms \<Longrightarrow> floored_minutes ms = round_minutes ms"
  by (simp add: floored_minutes_def round_minutes_def)

lemma round_minutes_negative:
  "ms < - 30000 \<Longrightarrow> round_minutes ms < 0 \<and> floored_minutes ms = 0"
  by (simp add: floored_minutes_def round_minutes_def)

text \<open>
  Claim C3, where the client path breaks it. The session's \<open>login_at\<close> is instant 600000
  and the client's clock reads 420000 at the close, three minutes earlier. The client's
  \<open>closeSession\<close> stores the duration \<open>-3\<close> (and takes 3 minutes off the total), where
  the claimed value \<open>max(0, round(...))\<close> is 0; the beacon endpoint, on the same store
  and instant, stores 0.
\<close>

theorem client_close_stores_negative_duration:
  "map_option duration_minutes
     (sessions (closeSession (Authenticated ''u1'') ''s1'' ''u1'' 420000 pg_late_login) ''s1'')
     = Some (Some (- 3)) \<and>
   map_option total_active_minutes
     (profiles (closeSession (Authenticated ''u1'') ''s1'' ''u1'' 420000 pg_late_login) ''u1'')
     = Some (- 3) \<and>
   max 0 (round_minutes (420000 - 600000)) = 0 \<and>
   map_option duration_minutes
     (sessions
        (snd (close_session
                (sendBeacon \<lparr>req_session_id = Some ''s1'', req_user_id = Some ''u1'',
                             req_logout_at = ValidDate 420000\<rparr>) 420000 pg_late_login))
        ''s1'')
     = Some (Some 0)"
  by (simp add: closeSession_def close_session_def store_defs example_defs
        Let_def round_minutes_def floored_minutes_def int4_def)

subsection \<open>Opening a session\<close>

text \<open>
  Claim C2, where the sign-in path breaks it. Alice's tab holds the cached session id
  \<open>s1\<close>. A \<open>SIGNED_IN\<close> event for Alice makes the listener insert a new session row
  \<open>s2\<close> and replace the cached id by \<open>s2\<close>, while \<open>s1\<close> stays open in the store. The
  initialisation after \<open>getSession()\<close>, in the same state, reuses \<open>s1\<close> and changes
  neither the tab's state nor the store.
\<close>

theorem signed_in_ignores_cached_session:
  "learning_session_id
     (fst (onAuthStateChange SIGNED_IN (Some ''u1'') ''s2'' 900000 900001
             (client_example, pg_example))) = Some ''s2'' \<and>
   currentSessionId
     (fst (onAuthStateChange SIGNED_IN (Some ''u1'') ''s2'' 900000 900001
             (client_example, pg_example))) = Some ''s2'' \<and>
   sessions
     (snd (onAuthStateChange SIGNED_IN (Some ''u1'') ''s2'' 900000 900001
             (client_example, pg_example))) ''s2'' =
     Some \<lparr>user_id = ''u1'', login_at = 900000, logout_at = None, duration_minutes = None\<rparr> \<and>
   sessions
     (snd (onAuthStateChange SIGNED_IN (Some ''u1'') ''s2'' 900000 900001
             (client_example, pg_example))) ''s1'' = Some session1 \<and>
   getSession_init (Some ''u1'') ''s2'' 900000 900001 (client_example, pg_example) =
     (client_example, pg_example)"
  by (simp add: onAuthStateChange_def getSession_init_def createSession_def
        insert_session_def fetchProfile_def truthy_def store_defs example_defs Let_def)

text \<open>
  What \<open>createSession\<close> does to the profiles: nothing, or it rewrites the profile of
  \<open>uid\<close> with a new \<open>last_login_at\<close>; and when it returns an id it did the latter.
\<close>

lemma createSession_profiles:
  "profiles (snd (createSession r uid new_id t1 t2 db)) = profiles db \<or>
   (\<exists>p. profiles db uid = Some p \<and>
        profiles (snd (createSession r uid new_id t1 t2 db)) =
          (profiles db)(uid \<mapsto> p\<lparr>last_login_at := Some t2\<rparr>))"
  by (auto simp: createSession_def insert_session_def store_defs Let_def
           split: option.splits pg_role.splits)

lemma createSession_success:
  assumes "fst (createSession r uid new_id t1 t2 db) = Some i"
  shows "\<exists>p. profiles db uid = Some p \<and>
             profiles (snd (createSession r uid new_id t1 t2 db)) =
               (profiles db)(uid \<mapsto> p\<lparr>last_login_at := Some t2\<rparr>)"
  using assms
  by (auto simp: createSession_def insert_session_def store_defs Let_def
           split: option.splits pg_role.splits if_splits)

text \<open>Saving a user document that differs from the stored one in one field.\<close>

lemma find_mem: "find P xs = Some x \<Longrightarrow> x \<in> set xs"
  by (induction xs) (auto split: if_splits)

lemma find_by_key_exists: "x \<in> set xs \<Longrightarrow> \<exists>y. find (\<lambda>d. f d = f x) xs = Some y"
  by (induction xs) auto

lemma save_frame:
  assumes "distinct (map f xs)" and "x \<in> set xs" and "f x' = f x" and "g x' = g x"
  shows "map g (map (\<lambda>d. if f d = f x' then x' else d) xs) = map g xs"
proof -
  have "d = x" if "d \<in> set xs" and "f d = f x" for d
    using assms(1,2) that by (meson distinct_map inj_on_def)
  then show ?thesis using assms(3,4) by (auto simp: map_idI)
qed

lemma login_users:
  "users (snd (login cp gt email password new_id t1 t2 db)) = users db \<or>
   (\<exists>e u. email = Some e \<and> User_findOne_email db e = Some u \<and>
          users (snd (login cp gt email password new_id t1 t2 db)) =
            users (user_save (u\<lparr>lastLoginAt := Some t1\<rparr>) db))"
  by (auto simp: login_def Session_create_def user_save_def Let_def
           split: option.splits)

lemma login_success:
  assumes "fst (login cp gt email password new_id t1 t2 db) = LoginOk tok sid info"
  shows "\<exists>e u. email = Some e \<and> User_findOne_email db e = Some u \<and>
               users (snd (login cp gt email password new_id t1 t2 db)) =
                 users (user_save (u\<lparr>lastLoginAt := Some t1\<rparr>) db)"
  using assms
  by (auto simp: login_def Session_create_def user_save_def Let_def
           split: option.splits if_splits)

text \<open>
  Claim C9. Opening a session touches \<open>last_login_at\<close> only.
  \<^item> Client: after \<open>createSession\<close>, every profile is what it was up to its
    \<open>last_login_at\<close> (so \<open>total_active_minutes\<close> and \<open>last_logout_at\<close> are unchanged, for
    every user and whatever the outcome); and when \<open>createSession\<close> returns an id, the
    profile of the user is there and is rewritten with \<open>last_login_at\<close> set to the clock
    reading \<open>t2\<close> taken for that update, nothing else being written.
  \<^item> Controller: after \<open>login\<close>, on a collection whose documents have distinct ids,
    every user document is what it was up to its \<open>lastLoginAt\<close>; and when \<open>login\<close>
    succeeds, the document of the user who logged in has \<open>lastLoginAt\<close> set to the clock
    reading \<open>t1\<close> taken for that save.
\<close>

theorem open_touches_only_last_login:
  "(\<forall>k. map_option (\<lambda>p. p\<lparr>last_login_at := None\<rparr>)
           (profiles (snd (createSession r uid new_id t1 t2 db)) k) =
         map_option (\<lambda>p. p\<lparr>last_login_at := None\<rparr>) (profiles db k)) \<and>
   (fst (createSession r uid new_id t1 t2 db) = Some i \<longrightarrow>
      (\<exists>p. profiles db uid = Some p \<and>
           profiles (snd (createSession r uid new_id t1 t2 db)) =
             (profiles db)(uid \<mapsto> p\<lparr>last_login_at := Some t2\<rparr>))) \<and>
   (distinct (map u_id (users mdb)) \<longrightarrow>
      map (\<lambda>u. u\<lparr>lastLoginAt := None\<rparr>)
          (users (snd (login cp gt email password new_oid t1 t2 mdb))) =
      map (\<lambda>u. u\<lparr>lastLoginAt := None\<rparr>) (users mdb)) \<and>
   (fst (login cp gt email password new_oid t1 t2 mdb) = LoginOk tok sid info \<longrightarrow>
      (\<exists>e u. email = Some e \<and> User_findOne_email mdb e = Some u \<and>
             User_findById (snd (login cp gt email password new_oid t1 t2 mdb)) (u_id u) =
               Some (u\<lparr>lastLoginAt := Some t1\<rparr>)))"
proof (intro conjI impI allI)
  fix k
  show "map_option (\<lambda>p. p\<lparr>last_login_at := None\<rparr>)
           (profiles (snd (createSession r uid new_id t1 t2 db)) k) =
        map_option (\<lambda>p. p\<lparr>last_login_at := None\<rparr>) (profiles db k)"
    using createSession_profiles [of r uid new_id t1 t2 db] by auto
next
  assume "fst (createSession r uid new_id t1 t2 db) = Some i"
  then show "\<exists>p. profiles db uid = Some p \<and>
           profiles (snd (createSession r uid new_id t1 t2 db)) =
             (profiles db)(uid \<mapsto> p\<lparr>last_login_at := Some t2\<rparr>)"
    by (rule createSession_success)
next
  assume d: "distinct (map u_id (users mdb))"
  let ?db' = "snd (login cp gt email password new_oid t1 t2 mdb)"
  from login_users [of cp gt email password new_oid t1 t2 mdb]
  show "map (\<lambda>u. u\<lparr>lastLoginAt := None\<rparr>) (users ?db') =
        map (\<lambda>u. u\<lparr>lastLoginAt := None\<rparr>) (users mdb)"
  proof
    assume "users ?db' = users mdb"
    then show ?thesis by simp
  next
    assume "\<exists>e u. email = Some e \<and> User_findOne_email mdb e = Some u \<and>
          users ?db' = users (user_save (u\<lparr>lastLoginAt := Some t1\<rparr>) mdb)"
    then obtain e u where f: "User_findOne_email mdb e = Some u"
      and us: "users ?db' = users (user_save (u\<lparr>lastLoginAt := Some t1\<rparr>) mdb)"
      by blast
    have m: "u \<in> set (users mdb)"
      using f by (auto simp: User_findOne_email_def dest: find_mem)
    show ?thesis
      unfolding us user_save_def
      using save_frame [OF d m, of "u\<lparr>lastLoginAt := Some t1\<rparr>" "\<lambda>u. u\<lparr>lastLoginAt := None\<rparr>"]
      by simp
  qed
next
  assume "fst (login cp gt email password new_oid t1 t2 mdb) = LoginOk tok sid info"
  then obtain e u where e: "email = Some e" and f: "User_findOne_email mdb e = Some u"
    and us: "users (snd (login cp gt email password new_oid t1 t2 mdb)) =
               users (user_save (u\<lparr>lastLoginAt := Some t1\<rparr>) mdb)"
    using login_success by blast
  have m: "u \<in> set (users mdb)"
    using f by (auto simp: User_findOne_email_def dest: find_mem)
  then obtain y where y: "find (\<lambda>d. u_id d = u_id u) (users mdb) = Some y"
    using find_by_key_exists [of u "users mdb" u_id] by blast
  have "find (\<lambda>d. u_id d = u_id u)
          (map (\<lambda>d. if u_id d = u_id (u\<lparr>lastLoginAt := Some t1\<rparr>)
                     then u\<lparr>lastLoginAt := Some t1\<rparr> else d) (users mdb)) =
        Some (u\<lparr>lastLoginAt := Some t1\<rparr>)"
    by (rule find_replaced [OF y]) simp
  then have "User_findById (snd (login cp gt email password new_oid t1 t2 mdb)) (u_id u) =
               Some (u\<lparr>lastLoginAt := Some t1\<rparr>)"
    by (simp add: User_findById_def us user_save_def)
  with e f
  show "\<exists>e u. email = Some e \<and> User_findOne_email mdb e = Some u \<and>
             User_findById (snd (login cp gt email password new_oid t1 t2 mdb)) (u_id u) =
               Some (u\<lparr>lastLoginAt := Some t1\<rparr>)"
    by blast
qed
text \<open>
  Bob, who has no session yet, opens session \<open>s2\<close>: his profile gets the new
  \<open>last_login_at\<close> and keeps its total and its \<open>last_logout_at\<close>. Carol logs in on the
  controller: her document gets the new \<open>lastLoginAt\<close>, and every document keeps its
  other fields.
\<close>

theorem open_touches_only_last_login_witness:
  "profiles (snd (createSession (Authenticated ''u2'') ''u2'' ''s2'' 900000 900001 pg_example)) =
     (profiles pg_example)(''u2'' \<mapsto> bob\<lparr>last_login_at := Some 900001\<rparr>) \<and>
   map_option total_active_minutes
     (profiles (snd (createSession (Authenticated ''u2'') ''u2'' ''s2'' 900000 900001
                       pg_example)) ''u2'') = Some 40 \<and>
   map (\<lambda>u. u\<lparr>lastLoginAt := None\<rparr>)
     (users (snd (login plain_compare (\<lambda>i. ''token:'' @ i)
                    (Some ''carol@example.org'') (Some ''hash1'') ''5e5510000000000000000002'' 900000 900001
                    mongo_example))) =
     map (\<lambda>u. u\<lparr>lastLoginAt := None\<rparr>) (users mongo_example) \<and>
   User_findById
     (snd (login plain_compare (\<lambda>i. ''token:'' @ i)
             (Some ''carol@example.org'') (Some ''hash1'') ''5e5510000000000000000002'' 900000 900001
             mongo_example)) ''c00000000000000000000001'' =
     Some (carol\<lparr>lastLoginAt := Some 900000\<rparr>)"
proof -
  have ok1: "fst (createSession (Authenticated ''u2'') ''u2'' ''s2'' 900000 900001 pg_example)
               = Some ''s2''"
    by (simp add: createSession_def insert_session_def store_defs example_defs)
  have ok2: "fst (login plain_compare (\<lambda>i. ''token:'' @ i)
                    (Some ''carol@example.org'') (Some ''hash1'') ''5e5510000000000000000002'' 900000 900001
                    mongo_example) =
               LoginOk ''token:c00000000000000000000001'' ''5e5510000000000000000002'' (''c00000000000000000000001'', ''Carol'', ''carol@example.org'', ''student'')"
    by (simp add: login_def User_findOne_email_def plain_compare_def user_save_def
          Session_create_def Session_findById_def example_defs Let_def)
  have d: "distinct (map u_id (users mongo_example))"
    by (simp add: example_defs)
  have f: "User_findOne_email mongo_example ''carol@example.org'' = Some carol"
    by (simp add: User_findOne_email_def example_defs)
  have p: "profiles pg_example ''u2'' = Some bob"
    by (simp add: example_defs)
  have b: "total_active_minutes bob = 40" by (simp add: bob_def)
  have c: "u_id carol = ''c00000000000000000000001''" by (simp add: carol_def)
  show ?thesis
    using open_touches_only_last_login
            [where r = "Authenticated ''u2''" and uid = "''u2''" and new_id = "''s2''"
               and ?t1.0 = 900000 and ?t2.0 = 900001 and db = pg_example and i = "''s2''"
               and mdb = mongo_example and cp = plain_compare and gt = "\<lambda>i. ''token:'' @ i"
               and email = "Some ''carol@example.org''" and password = "Some ''hash1''"
               and new_oid = "''5e5510000000000000000002''" and tok = "''token:c00000000000000000000001''" and sid = "''5e5510000000000000000002''"
               and info = "(''c00000000000000000000001'', ''Carol'', ''carol@example.org'', ''student'')"]
      ok1 ok2 d f p b c
    by auto
qed

subsection \<open>The two close fields are set together\<close>

lemma pg_paired_createSession:
  "pg_paired db \<Longrightarrow> pg_paired (snd (createSession r uid new_id t1 t2 db))"
  by (auto simp: pg_paired_def createSession_def insert_session_def store_defs Let_def
           split: option.splits if_splits)

lemma pg_paired_closeSession:
  "pg_paired db \<Longrightarrow> pg_paired (closeSession r sid uid now db)"
  by (auto simp: pg_paired_def closeSession_def store_defs Let_def
           split: option.splits if_splits)

lemma pg_paired_close_session:
  "pg_paired db \<Longrightarrow> pg_paired (snd (close_session req now db))"
  by (auto simp: pg_paired_def close_session_def store_defs Let_def
           split: option.splits if_splits date_field.splits)

lemma list_all_replace:
  "list_all P xs \<Longrightarrow> P x \<Longrightarrow> list_all P (map (\<lambda>d. if f d = k then x else d) xs)"
  by (induction xs) auto

lemma mongo_paired_login:
  "mongo_paired db \<Longrightarrow> mongo_paired (snd (login cp gt e pw new_id t1 t2 db))"
  by (auto simp: mongo_paired_def login_def Session_create_def user_save_def Let_def
           split: option.splits)

lemma mongo_paired_logout:
  "mongo_paired db \<Longrightarrow> mongo_paired (snd (logout co sid u now db))"
  by (auto simp: mongo_paired_def logout_def session_save_def user_save_def Let_def
           intro: list_all_replace split: option.splits sum.splits)

lemma sessions_paired_step:
  "sessions_paired w \<Longrightarrow> sessions_paired (step co cp gt e w)"
  by (cases e)
     (simp_all add: sessions_paired_def pg_paired_createSession pg_paired_closeSession
        pg_paired_close_session mongo_paired_login mongo_paired_logout)

lemma sessions_paired_run:
  "sessions_paired w \<Longrightarrow> sessions_paired (run co cp gt es w)"
  by (induction es arbitrary: w) (simp_all add: sessions_paired_step)

lemma sessions_paired_no_sessions:
  "sessions (pg w) = Map.empty \<Longrightarrow> session_docs (mongo w) = [] \<Longrightarrow> sessions_paired w"
  by (simp add: sessions_paired_def pg_paired_def mongo_paired_def)

text \<open>
  Claim C7. In every state the lifecycle operations reach, each session has
  \<open>logout_at\<close> null exactly when \<open>duration_minutes\<close> is null, on both stores. The
  operations are the client's \<open>createSession\<close> and \<open>closeSession\<close>, requests to the
  beacon endpoint and the controller's \<open>login\<close> and \<open>logout\<close>, with any inputs and in
  any order: they keep the pairing when it holds, and it holds in every run that starts
  from stores without sessions.
\<close>

theorem sessions_stay_paired:
  "(sessions_paired w \<longrightarrow> sessions_paired (run co cp gt es w)) \<and>
   (sessions (pg w) = Map.empty \<and> session_docs (mongo w) = [] \<longrightarrow>
      sessions_paired (run co cp gt es w))"
  using sessions_paired_run [of w co cp gt es] sessions_paired_no_sessions [of w] by blast

text \<open>
  The scenario, which opens three sessions and closes them on the three paths, ends in
  a state where the pairing holds. In that state Alice's sessions have the durations 7
  and 3 and her total is 10, as the specification's scenario says; Carol's total is 7.
\<close>

theorem sessions_stay_paired_witness:
  "sessions_paired (run hex24 plain_compare (\<lambda>i. ''token:'' @ i) scenario world_start)"
  using sessions_stay_paired [of world_start hex24 plain_compare "\<lambda>i. ''token:'' @ i" scenario]
  by (simp add: world_start_def)

lemma scenario_result:
  "sessions (pg (run hex24 plain_compare (\<lambda>i. ''token:'' @ i) scenario world_start)) ''s1'' =
     Some \<lparr>user_id = ''u1'', login_at = 0, logout_at = Some 420000,
           duration_minutes = Some 7\<rparr>"
  "sessions (pg (run hex24 plain_compare (\<lambda>i. ''token:'' @ i) scenario world_start)) ''s2'' =
     Some \<lparr>user_id = ''u1'', login_at = 1000000, logout_at = Some 1180000,
           duration_minutes = Some 3\<rparr>"
  "profiles (pg (run hex24 plain_compare (\<lambda>i. ''token:'' @ i) scenario world_start)) ''u1'' =
     Some (alice\<lparr>last_login_at := Some 1000001, last_logout_at := Some 1180000,
                 total_active_minutes := 10\<rparr>)"
  "session_docs (mongo (run hex24 plain_compare (\<lambda>i. ''token:'' @ i) scenario world_start)) =
     [\<lparr>s_id = ''5e5510000000000000000001'', userId = ''c00000000000000000000001'', loginAt = 1, logoutAt = Some 420000,
       durationMinutes = Some 7\<rparr>]"
  "User_findById (mongo (run hex24 plain_compare (\<lambda>i. ''token:'' @ i) scenario world_start)) ''c00000000000000000000001'' =
     Some (carol\<lparr>lastLoginAt := Some 0, lastLogoutAt := Some 420000,
                 totalActiveMinutes := Some 7\<rparr>)"
  by (simp_all add: scenario_def world_start_def createSession_def closeSession_def
        close_session_def login_def logout_def insert_session_def store_defs
        Session_create_def Session_findById_def User_findById_def User_findOne_email_def
        user_save_def session_save_def plain_compare_def example_defs Let_def
        round_minutes_def floored_minutes_def int4_def)

subsection \<open>The tab's cache and the beacon it sends\<close>

text \<open>
  A beacon is sent exactly when both cache entries are there, and then it carries them
  and the instant of the unload: the edge function's field validation admits it.
\<close>

lemma handleBeforeUnload_payload:
  "handleBeforeUnload now c = Some pl \<Longrightarrow>
     req_session_id pl = learning_session_id c \<and> req_user_id pl = stored_user_id c \<and>
     req_logout_at pl = ValidDate now \<and> truthy (req_session_id pl) \<and> truthy (req_user_id pl)"
  by (auto simp: handleBeforeUnload_def split: if_splits)

text \<open>
  The initialisation never creates a session while a session id is cached: it leaves
  the store as it was and makes the cached id the current one.
\<close>

lemma getSession_init_reuses_cached:
  assumes "truthy (learning_session_id c)"
  shows "snd (getSession_init (Some u) new_id t1 t2 (c, db)) = db"
    and "currentSessionId (fst (getSession_init (Some u) new_id t1 t2 (c, db))) =
           learning_session_id c"
    and "learning_session_id (fst (getSession_init (Some u) new_id t1 t2 (c, db))) =
           learning_session_id c"
  using assms by (simp_all add: getSession_init_def Let_def)

text \<open>The provider's \<open>logout\<close> always ends with the cache and the current id cleared.\<close>

lemma client_logout_clears_cache:
  "learning_session_id (fst (client_logout now w)) = None \<and>
   stored_user_id (fst (client_logout now w)) = None \<and>
   currentSessionId (fst (client_logout now w)) = None"
  by (cases w) (simp add: client_logout_def onAuthStateChange_def Let_def)

end
